theory Spec2Isabelle
  imports Main "HOL-Library.Word" "HOL-Library.Sublist"
begin

unbundle bit_operations_syntax

section \<open>JavaScript values used by the wallet code\<close>

text \<open>
  A JavaScript string is a sequence of 16-bit code units. String literals of the source
  are ASCII and are written \<open>js ''...''\<close>.
\<close>

type_synonym jsstring = "16 word list"

definition js :: "string \<Rightarrow> jsstring" where
  "js s = map (\<lambda>c. of_nat (of_char c)) s"

text \<open>
  \<open>String.prototype.includes\<close>: the search string occurs somewhere as a contiguous
  block (the empty search string always does).
\<close>

fun str_includes :: "jsstring \<Rightarrow> jsstring \<Rightarrow> bool" where
  "str_includes [] p = (p = [])"
| "str_includes (c # cs) p = (prefix p (c # cs) \<or> str_includes cs p)"

text \<open>
  A JavaScript number as the wallet code meets it: an integer that is a double, \<open>NaN\<close>
  (what \<open>parseInt\<close> yields when it finds no digit) or an infinity. Numbers with a fraction
  do not occur: chain ids come from \<open>parseInt\<close> and from the network selector, clock
  readings from \<open>Date.now()\<close>.
\<close>

datatype number = Num int | NaN | PosInfinity | NegInfinity

text \<open>
  The double of an integer: the integer itself below \<open>2^53\<close>; above, the nearest integer
  with 53 significant bits, the even one of two equally near, and an infinity from
  \<open>2^1024\<close> on.
\<close>

fun bitLength :: "nat \<Rightarrow> nat" where
  "bitLength n = (if n = 0 then 0 else Suc (bitLength (n div 2)))"

definition roundNat :: "nat \<Rightarrow> nat" where
  "roundNat n =
     (if bitLength n \<le> 53 then n
      else (let sh = bitLength n - 53;
                q = n div 2 ^ sh;
                r = n mod 2 ^ sh;
                half = 2 ^ (sh - 1)
            in (if half < r \<or> (r = half \<and> odd q) then q + 1 else q) * 2 ^ sh))"

definition toDouble :: "int \<Rightarrow> number" where
  "toDouble n =
     (if \<bar>n\<bar> < 9007199254740992 then Num n
      else (let m = roundNat (nat \<bar>n\<bar>)
            in if 2 ^ 1024 \<le> m then (if n < 0 then NegInfinity else PosInfinity)
               else Num (if n < 0 then - int m else int m)))"

text \<open>Every decimal digit of an integer.\<close>

fun digits10 :: "nat \<Rightarrow> jsstring" where
  "digits10 n = (if n < 10 then [of_nat (48 + n)] else digits10 (n div 10) @ [of_nat (48 + n mod 10)])"

definition intToString :: "int \<Rightarrow> jsstring" where
  "intToString n = (if n < 0 then js ''-'' @ digits10 (nat (- n)) else digits10 (nat n))"

text \<open>
  The integer with the fewest significant digits that still rounds to the double \<open>x\<close>:
  trailing digits are replaced by zeros, as many as possible; of the two candidates
  around \<open>x\<close> the nearer is taken, the even one when both are equally near.
\<close>

fun shortest :: "nat \<Rightarrow> nat \<Rightarrow> nat" where
  "shortest x 0 = x"
| "shortest x (Suc z) =
     (let p = 10 ^ Suc z;
          lo = (x div p) * p;
          hi = lo + p;
          okLo = (0 < lo \<and> roundNat lo = x);
          okHi = (roundNat hi = x)
      in if okLo \<and> okHi
         then (if x - lo < hi - x then lo
               else if hi - x < x - lo then hi
               else if even (x div p) then lo else hi)
         else if okLo then lo
         else if okHi then hi
         else shortest x z)"

fun trailingZeros :: "nat \<Rightarrow> nat" where
  "trailingZeros v = (if v = 0 \<or> v mod 10 \<noteq> 0 then 0 else Suc (trailingZeros (v div 10)))"

text \<open>
  A double from \<open>2^53\<close> on, as JavaScript prints it: the significant digits and then
  zeros up to 21 digits, exponent notation beyond.
\<close>

definition bigToString :: "nat \<Rightarrow> jsstring" where
  "bigToString x =
     (let v = shortest x (length (digits10 x));
          ds = digits10 v;
          n = length ds
      in if n \<le> 21 then ds
         else (let k = n - trailingZeros v
               in take 1 ds @ (if k = 1 then [] else js ''.'' @ take (k - 1) (drop 1 ds))
                  @ js ''e+'' @ digits10 (n - 1)))"

text \<open>
  Number to string conversion, as a template literal performs it. Below \<open>2^53\<close> every
  integer is a double and is printed in full.
\<close>

fun numberToString :: "number \<Rightarrow> jsstring" where
  "numberToString NaN = js ''NaN''"
| "numberToString PosInfinity = js ''Infinity''"
| "numberToString NegInfinity = js ''-Infinity''"
| "numberToString (Num n) =
     (if \<bar>n\<bar> < 9007199254740992 then intToString n
      else if n < 0 then js ''-'' @ bigToString (nat (- n))
      else bigToString (nat n))"

text \<open>
  White space as \<open>parseInt\<close>, \<open>trim\<close> and the regular expression class \<open>\s\<close> see it:
  TAB, LF, VT, FF, CR, SP, NBSP, the Unicode space separators, LS, PS and the BOM.
\<close>

definition isWhiteSpace :: "16 word \<Rightarrow> bool" where
  "isWhiteSpace c \<longleftrightarrow>
     c = 9 \<or> c = 10 \<or> c = 11 \<or> c = 12 \<or> c = 13 \<or> c = 32 \<or> c = 160 \<or> c = 5760 \<or>
     (8192 \<le> c \<and> c \<le> 8202) \<or> c = 8232 \<or> c = 8233 \<or> c = 8239 \<or> c = 8287 \<or>
     c = 12288 \<or> c = 65279"

definition hexDigit :: "16 word \<Rightarrow> int option" where
  "hexDigit c =
     (if 48 \<le> c \<and> c \<le> 57 then Some (uint c - 48)
      else if 97 \<le> c \<and> c \<le> 102 then Some (uint c - 87)
      else if 65 \<le> c \<and> c \<le> 70 then Some (uint c - 55)
      else None)"

text \<open>The longest run of hexadecimal digits at the front, read as an integer.\<close>

fun hexRun :: "int option \<Rightarrow> jsstring \<Rightarrow> int option" where
  "hexRun acc [] = acc"
| "hexRun acc (c # cs) =
     (case hexDigit c of
        None \<Rightarrow> acc
      | Some d \<Rightarrow> hexRun (Some (16 * (case acc of None \<Rightarrow> 0 | Some a \<Rightarrow> a) + d)) cs)"

text \<open>
  \<open>parseInt(s, 16)\<close>: leading white space is skipped, one sign is read, one prefix
  \<open>0x\<close> or \<open>0X\<close> is dropped, then the digits are read up to the first character that
  is not a hexadecimal digit; no digit at all gives \<open>NaN\<close>, and else the result is the
  double of the integer read.
\<close>

definition stripSign :: "jsstring \<Rightarrow> int \<times> jsstring" where
  "stripSign s =
     (case s of
        [] \<Rightarrow> (1, [])
      | c # cs \<Rightarrow> if c = 45 then (-1, cs) else if c = 43 then (1, cs) else (1, c # cs))"

definition stripHexPrefix :: "jsstring \<Rightarrow> jsstring" where
  "stripHexPrefix s =
     (case s of
        a # b # cs \<Rightarrow> if a = 48 \<and> (b = 120 \<or> b = 88) then cs else s
      | _ \<Rightarrow> s)"

definition parseInt16 :: "jsstring \<Rightarrow> number" where
  "parseInt16 s =
     (case stripSign (dropWhile isWhiteSpace s) of
        (sign, rest) \<Rightarrow>
          (case hexRun None (stripHexPrefix rest) of
             None \<Rightarrow> NaN
           | Some n \<Rightarrow> toDouble (sign * n)))"

definition hexToDecimal :: "jsstring \<Rightarrow> number" where
  "hexToDecimal hex = parseInt16 hex"

text \<open>Truthiness of the values the code tests with \<open>||\<close>, \<open>&&\<close> and \<open>!\<close>.\<close>

definition truthyString :: "jsstring option \<Rightarrow> bool" where
  "truthyString x = (case x of None \<Rightarrow> False | Some s \<Rightarrow> s \<noteq> [])"

definition truthyNumber :: "number option \<Rightarrow> bool" where
  "truthyNumber x =
     (case x of
        None \<Rightarrow> False
      | Some NaN \<Rightarrow> False
      | Some (Num n) \<Rightarrow> n \<noteq> 0
      | Some y \<Rightarrow> True)"

section \<open>The wallet snapshot and its reducer\<close>

record WalletState =
  isConnected :: bool
  account :: "jsstring option"
  chainId :: "number option"
  balance :: "jsstring option"
  isLoading :: bool
  error :: "jsstring option"

definition initialState :: WalletState where
  "initialState =
     \<lparr>isConnected = False, account = None, chainId = None, balance = None,
      isLoading = False, error = None\<rparr>"

datatype WalletAction =
    SET_LOADING bool
  | SET_ERROR "jsstring option"
  | SET_CONNECTED jsstring number
  | SET_DISCONNECTED
  | SET_BALANCE jsstring
  | SET_CHAIN_ID number
  | RESET_STATE

fun walletReducer :: "WalletState \<Rightarrow> WalletAction \<Rightarrow> WalletState" where
  "walletReducer state (SET_LOADING payload) = state\<lparr>isLoading := payload, error := None\<rparr>"
| "walletReducer state (SET_ERROR payload) = state\<lparr>error := payload, isLoading := False\<rparr>"
| "walletReducer state (SET_CONNECTED acc cid) =
     state\<lparr>isConnected := True, account := Some acc, chainId := Some cid,
           isLoading := False, error := None\<rparr>"
| "walletReducer state SET_DISCONNECTED = initialState\<lparr>isLoading := False\<rparr>"
| "walletReducer state (SET_BALANCE payload) = state\<lparr>balance := Some payload\<rparr>"
| "walletReducer state (SET_CHAIN_ID payload) = state\<lparr>chainId := Some payload\<rparr>"
| "walletReducer state RESET_STATE = initialState"

section \<open>The network registry\<close>

record NativeCurrency =
  currencyName :: jsstring
  symbol :: jsstring
  decimals :: int

record NetworkConfig =
  chainIdHex :: jsstring
  chainName :: jsstring
  nativeCurrency :: NativeCurrency
  rpcUrls :: "jsstring list"
  blockExplorerUrls :: "jsstring list"

text \<open>The table \<open>SUPPORTED_NETWORKS\<close>, keyed by the decimal chain id.\<close>

definition SUPPORTED_NETWORKS :: "(int \<times> NetworkConfig) list" where
  "SUPPORTED_NETWORKS =
     [(1, \<lparr>chainIdHex = js ''0x1'', chainName = js ''Ethereum Mainnet'',
            nativeCurrency = \<lparr>currencyName = js ''Ethereum'', symbol = js ''ETH'', decimals = 18\<rparr>,
            rpcUrls = [js ''https://mainnet.infura.io/v3/''],
            blockExplorerUrls = [js ''https://etherscan.io/'']\<rparr>),
      (56, \<lparr>chainIdHex = js ''0x38'', chainName = js ''Binance Smart Chain'',
            nativeCurrency = \<lparr>currencyName = js ''BNB'', symbol = js ''BNB'', decimals = 18\<rparr>,
            rpcUrls = [js ''https://bsc-dataseed.binance.org/''],
            blockExplorerUrls = [js ''https://bscscan.com/'']\<rparr>),
      (137, \<lparr>chainIdHex = js ''0x89'', chainName = js ''Polygon'',
            nativeCurrency = \<lparr>currencyName = js ''MATIC'', symbol = js ''MATIC'', decimals = 18\<rparr>,
            rpcUrls = [js ''https://polygon-rpc.com/''],
            blockExplorerUrls = [js ''https://polygonscan.com/'']\<rparr>)]"

text \<open>
  \<open>getNetworkById\<close>: the property lookup \<open>SUPPORTED_NETWORKS[chainId] || null\<close>. The keys
  \<open>NaN\<close>, \<open>Infinity\<close> and \<open>-Infinity\<close> name no property of the table.
\<close>

fun getNetworkById :: "number \<Rightarrow> NetworkConfig option" where
  "getNetworkById (Num n) = map_of SUPPORTED_NETWORKS n"
| "getNetworkById x = None"

section \<open>The peer\<close>

text \<open>
  What the provider rejects a request with, and what \<open>new Error(message)\<close> builds (an
  error with no code).
\<close>

record WalletError =
  code :: "int option"
  message :: jsstring

definition newError :: "jsstring \<Rightarrow> WalletError" where
  "newError m = \<lparr>code = None, message = m\<rparr>"

text \<open>
  The provider is a black box: only its field \<open>selectedAddress\<close> and its answers are
  modelled. Every request is answered by a result (\<open>Inr\<close>) or a rejection (\<open>Inl\<close>); the
  two requests that the code races against its 30 second timer may also stay unanswered
  until the timer fires (\<open>None\<close>). A rejection carries a code and a message, as the type
  \<open>WalletError\<close> of the repository declares.
\<close>

record peer =
  selectedAddress :: "jsstring option"
  accountsReply :: "WalletError + jsstring list"
  chainIdReply :: "WalletError + jsstring"
  balanceReply :: "jsstring \<Rightarrow> WalletError + jsstring"
  switchReply :: "jsstring \<Rightarrow> (WalletError + unit) option"
  addReply :: "NetworkConfig \<Rightarrow> (WalletError + unit) option"

datatype provider =
  Provider (isTrust: bool) (replies: peer) (providers: "provider list option")

text \<open>The global object: absent outside a browser, else holding \<open>window.ethereum\<close> or not.\<close>

datatype window = NoWindow | Window "provider option"

datatype rpc =
    eth_requestAccounts
  | eth_chainId
  | eth_getBalance jsstring
  | wallet_switchEthereumChain jsstring
  | wallet_addEthereumChain NetworkConfig

section \<open>Journal entries as the wallet hands them over\<close>

datatype entry_type = connection | disconnection | network_switch | transaction | error_entry

record LogDetails =
  detailAccount :: "jsstring option"
  detailChainId :: "number option"
  detailNetworkName :: "jsstring option"
  detailError :: "jsstring option"

definition noDetails :: LogDetails where
  "noDetails =
     \<lparr>detailAccount = None, detailChainId = None, detailNetworkName = None, detailError = None\<rparr>"

record LogEntry =
  entryType :: entry_type
  entryMessage :: jsstring
  details :: "LogDetails option"

text \<open>
  Everything a handler does besides computing: the actions it dispatches to the reducer,
  the entries it passes to \<open>activityLogger.addLogEntry\<close>, the requests it sends to the
  provider and the listeners it adds and removes, in the order of the source. The wallet
  code ignores the result of \<open>addLogEntry\<close>; the call is taken to return (it throws only
  on a journal slot whose data is not an array, which the store itself never writes).
  Output to the console is left out.
\<close>

datatype effect =
    Dispatch WalletAction
  | Journal LogEntry
  | Request rpc
  | AddListener jsstring
  | RemoveListener jsstring

section \<open>Wallet utilities\<close>

fun isTrustWalletAvailable :: "window \<Rightarrow> bool" where
  "isTrustWalletAvailable NoWindow = False"
| "isTrustWalletAvailable (Window None) = False"
| "isTrustWalletAvailable (Window (Some p)) = isTrust p"

fun getTrustWalletProvider :: "window \<Rightarrow> provider option" where
  "getTrustWalletProvider NoWindow = None"
| "getTrustWalletProvider (Window None) = None"
| "getTrustWalletProvider (Window (Some p)) =
     (if isTrust p then Some p
      else case providers p of
             Some ps \<Rightarrow> List.find isTrust ps
           | None \<Rightarrow> None)"

definition requestAccounts :: "window \<Rightarrow> effect list \<times> (WalletError + jsstring list)" where
  "requestAccounts w =
     (case getTrustWalletProvider w of
        None \<Rightarrow> ([], Inl (newError (js ''Trust Wallet not found'')))
      | Some p \<Rightarrow>
          ([Request eth_requestAccounts],
           case accountsReply (replies p) of
             Inr accounts \<Rightarrow> Inr accounts
           | Inl e \<Rightarrow>
               if code e = Some 4001
               then Inl (newError (js ''User rejected the connection request''))
               else Inl (newError (js ''Failed to connect: '' @ message e))))"

definition getChainId :: "window \<Rightarrow> effect list \<times> (WalletError + jsstring)" where
  "getChainId w =
     (case getTrustWalletProvider w of
        None \<Rightarrow> ([], Inl (newError (js ''Trust Wallet not found'')))
      | Some p \<Rightarrow> ([Request eth_chainId], chainIdReply (replies p)))"

definition getBalance :: "window \<Rightarrow> jsstring \<Rightarrow> effect list \<times> (WalletError + jsstring)" where
  "getBalance w address =
     (case getTrustWalletProvider w of
        None \<Rightarrow> ([], Inl (newError (js ''Trust Wallet not found'')))
      | Some p \<Rightarrow> ([Request (eth_getBalance address)], balanceReply (replies p) address))"

text \<open>
  \<open>switchNetwork\<close> of the utilities. The provider and the registry are checked before any
  request is sent. The switch request races the timer; when it is rejected with code
  4902 the add request races the same timer.
\<close>

definition timedOut :: WalletError where
  "timedOut = newError (js ''Network switch request timed out'')"

text \<open>\<open>Promise.race\<close> of a request with the timer.\<close>

definition race :: "(WalletError + unit) option \<Rightarrow> WalletError + unit" where
  "race reply = (case reply of None \<Rightarrow> Inl timedOut | Some r \<Rightarrow> r)"

definition switchNetworkUtil :: "window \<Rightarrow> number \<Rightarrow> effect list \<times> (WalletError + unit)" where
  "switchNetworkUtil w cid =
     (case getTrustWalletProvider w of
        None \<Rightarrow> ([], Inl (newError (js ''Trust Wallet not found'')))
      | Some p \<Rightarrow>
          (case getNetworkById cid of
             None \<Rightarrow> ([], Inl (newError (js ''Unsupported network: '' @ numberToString cid)))
           | Some network \<Rightarrow>
               (case race (switchReply (replies p) (chainIdHex network)) of
                  Inr u \<Rightarrow> ([Request (wallet_switchEthereumChain (chainIdHex network))], Inr ())
                | Inl e \<Rightarrow>
                    if code e = Some 4902
                    then ([Request (wallet_switchEthereumChain (chainIdHex network)),
                           Request (wallet_addEthereumChain network)],
                          race (addReply (replies p) network))
                    else if code e = Some 4001
                    then ([Request (wallet_switchEthereumChain (chainIdHex network))],
                          Inl (newError (js ''User rejected the network switch request'')))
                    else ([Request (wallet_switchEthereumChain (chainIdHex network))], Inl e))))"

section \<open>The wallet context: commands and event handlers\<close>

text \<open>
  Each handler is given the window and the snapshot its closure holds, and yields its
  effects in order (and, for the two commands that can fail, how it ends).
\<close>

definition orUndefined :: "jsstring option \<Rightarrow> jsstring option" where
  "orUndefined x = (if truthyString x then x else None)"

definition chainNameOr :: "NetworkConfig option \<Rightarrow> jsstring \<Rightarrow> jsstring" where
  "chainNameOr network d =
     (case network of
        None \<Rightarrow> d
      | Some n \<Rightarrow> if chainName n = [] then d else chainName n)"

definition refreshBalance :: "window \<Rightarrow> WalletState \<Rightarrow> jsstring option \<Rightarrow> effect list" where
  "refreshBalance w walletState acc =
     (case (if truthyString acc then acc else account walletState) of
        None \<Rightarrow> []
      | Some targetAccount \<Rightarrow>
          if targetAccount = [] then []
          else (case getBalance w targetAccount of
                  (rq, Inr b) \<Rightarrow> rq @ [Dispatch (SET_BALANCE b)]
                | (rq, Inl e) \<Rightarrow>
                    rq @ [Dispatch (SET_ERROR (Some (js ''Failed to get balance: '' @ message e)))]))"

text \<open>The \<open>catch\<close> block of \<open>connectWallet\<close>.\<close>

definition connectCatch :: "WalletError \<Rightarrow> effect list" where
  "connectCatch e =
     (if \<not> str_includes (message e) (js ''Trust Wallet is not installed'') \<and>
         \<not> str_includes (message e) (js ''No accounts found'')
      then [Journal \<lparr>entryType = error_entry, entryMessage = js ''Wallet connection failed'',
                     details = Some (noDetails\<lparr>detailError := Some (message e)\<rparr>)\<rparr>]
      else [])
     @ [Dispatch (SET_ERROR (Some (message e)))]"

text \<open>
  \<open>connectWallet\<close> is memoised with no dependency, so the \<open>refreshBalance\<close> it calls is the one
  of the first render, whose snapshot is the initial one.
\<close>

definition connectWallet :: "window \<Rightarrow> effect list \<times> (WalletError + unit)" where
  "connectWallet w =
     (if \<not> isTrustWalletAvailable w
      then (let e = newError (js ''Trust Wallet is not installed'') in
            ([Dispatch (SET_LOADING True),
              Journal \<lparr>entryType = error_entry,
                       entryMessage = js ''Connection failed - Trust Wallet not available'',
                       details = Some (noDetails\<lparr>detailError := Some (message e)\<rparr>)\<rparr>]
             @ connectCatch e, Inl e))
      else (case requestAccounts w of
              (rq, Inl e) \<Rightarrow> (Dispatch (SET_LOADING True) # rq @ connectCatch e, Inl e)
            | (rq, Inr accounts) \<Rightarrow>
                (case accounts of
                   [] \<Rightarrow>
                     (let e = newError (js ''No accounts found'') in
                      (Dispatch (SET_LOADING True) # rq
                       @ [Journal \<lparr>entryType = error_entry,
                                   entryMessage = js ''Connection failed - No accounts available'',
                                   details = Some (noDetails\<lparr>detailError := Some (message e)\<rparr>)\<rparr>]
                       @ connectCatch e, Inl e))
                 | a0 # rest \<Rightarrow>
                     (case getChainId w of
                        (rq2, Inl e) \<Rightarrow>
                          (Dispatch (SET_LOADING True) # rq @ rq2 @ connectCatch e, Inl e)
                      | (rq2, Inr hexId) \<Rightarrow>
                          (let cid = hexToDecimal hexId;
                               network = getNetworkById cid
                           in (Dispatch (SET_LOADING True) # rq @ rq2
                               @ [Dispatch (SET_CONNECTED a0 cid),
                                  Journal \<lparr>entryType = connection,
                                    entryMessage = js ''Successfully connected to Trust Wallet'',
                                    details = Some
                                      \<lparr>detailAccount = Some a0, detailChainId = Some cid,
                                       detailNetworkName =
                                         Some (chainNameOr network (js ''Unknown Network'')),
                                       detailError = None\<rparr>\<rparr>]
                               @ refreshBalance w initialState (Some a0), Inr ()))))))"

definition disconnectWallet :: "window \<Rightarrow> WalletState \<Rightarrow> effect list" where
  "disconnectWallet w walletState =
     [Journal \<lparr>entryType = disconnection, entryMessage = js ''Wallet disconnected'',
               details = Some (noDetails\<lparr>detailAccount := orUndefined (account walletState)\<rparr>)\<rparr>,
      Dispatch SET_DISCONNECTED]
     @ (case getTrustWalletProvider w of
          Some p \<Rightarrow> [RemoveListener (js ''accountsChanged''), RemoveListener (js ''chainChanged'')]
        | None \<Rightarrow> [])"

definition switchNetwork ::
  "window \<Rightarrow> WalletState \<Rightarrow> number \<Rightarrow> effect list \<times> (WalletError + unit)" where
  "switchNetwork w walletState targetChainId =
     (let targetNetwork = getNetworkById targetChainId in
      case switchNetworkUtil w targetChainId of
        (rq, Inr u) \<Rightarrow>
          (Dispatch (SET_LOADING True) # rq
           @ [Dispatch (SET_CHAIN_ID targetChainId), Dispatch (SET_LOADING False),
              Journal \<lparr>entryType = network_switch,
                entryMessage = js ''Switched to '' @ chainNameOr targetNetwork (js ''Unknown Network''),
                details = Some
                  \<lparr>detailAccount = orUndefined (account walletState),
                   detailChainId = Some targetChainId,
                   detailNetworkName = Some (chainNameOr targetNetwork (js ''Unknown Network'')),
                   detailError = None\<rparr>\<rparr>]
           @ (if truthyString (account walletState)
              then refreshBalance w walletState (account walletState) else [])
           @ [Dispatch (SET_LOADING False)], Inr ())
      | (rq, Inl e) \<Rightarrow>
          (Dispatch (SET_LOADING True) # rq
           @ [Journal \<lparr>entryType = error_entry,
                entryMessage = js ''Failed to switch to '' @ chainNameOr targetNetwork (js ''network''),
                details = Some
                  \<lparr>detailAccount = orUndefined (account walletState),
                   detailChainId = Some targetChainId,
                   detailNetworkName = Some (chainNameOr targetNetwork (js ''Unknown Network'')),
                   detailError = Some (message e)\<rparr>\<rparr>,
              Dispatch (SET_ERROR (Some (message e))),
              Dispatch (SET_LOADING False)], Inl e))"

definition chainIdOr1 :: "number option \<Rightarrow> number" where
  "chainIdOr1 c = (case c of Some n \<Rightarrow> if truthyNumber c then n else Num 1 | None \<Rightarrow> Num 1)"

definition handleAccountsChanged :: "window \<Rightarrow> WalletState \<Rightarrow> jsstring list \<Rightarrow> effect list" where
  "handleAccountsChanged w walletState event =
     (case event of
        [] \<Rightarrow> [Dispatch SET_DISCONNECTED]
      | newAccount # rest \<Rightarrow>
          if isConnected walletState \<and> Some newAccount \<noteq> account walletState
          then Dispatch (SET_CONNECTED newAccount (chainIdOr1 (chainId walletState)))
               # refreshBalance w walletState (Some newAccount)
          else [])"

definition handleChainChanged :: "window \<Rightarrow> WalletState \<Rightarrow> jsstring \<Rightarrow> effect list" where
  "handleChainChanged w walletState hex =
     Dispatch (SET_CHAIN_ID (hexToDecimal hex))
     # (if truthyString (account walletState)
        then refreshBalance w walletState (account walletState) else [])"

text \<open>
  The effect that React runs at mount, and again whenever it has re-created the two
  handlers: the listeners are registered, and a provider that already has a selected
  address is adopted as connected without asking (\<open>checkConnection\<close>, whose \<open>catch\<close> only
  writes to the console).
\<close>

definition mountEffect :: "window \<Rightarrow> WalletState \<Rightarrow> effect list" where
  "mountEffect w walletState =
     (case getTrustWalletProvider w of
        None \<Rightarrow> []
      | Some p \<Rightarrow>
          [AddListener (js ''accountsChanged''), AddListener (js ''chainChanged'')]
          @ (case selectedAddress (replies p) of
               None \<Rightarrow> []
             | Some address \<Rightarrow>
                 if address = [] then []
                 else (case getChainId w of
                         (rq, Inl e) \<Rightarrow> rq
                       | (rq, Inr hexId) \<Rightarrow>
                           rq @ [Dispatch (SET_CONNECTED address (hexToDecimal hexId))]
                           @ refreshBalance w walletState (Some address))))"

section \<open>Running the state machine\<close>

fun dispatched :: "effect list \<Rightarrow> WalletAction list" where
  "dispatched [] = []"
| "dispatched (Dispatch a # es) = a # dispatched es"
| "dispatched (e # es) = dispatched es"

fun journaled :: "effect list \<Rightarrow> LogEntry list" where
  "journaled [] = []"
| "journaled (Journal l # es) = l # journaled es"
| "journaled (e # es) = journaled es"

fun requested :: "effect list \<Rightarrow> rpc list" where
  "requested [] = []"
| "requested (Request r # es) = r # requested es"
| "requested (e # es) = requested es"

text \<open>The snapshot after the reducer has processed the dispatched actions in order.\<close>

definition snapshot :: "WalletState \<Rightarrow> effect list \<Rightarrow> WalletState" where
  "snapshot s es = foldl walletReducer s (dispatched es)"

text \<open>
  The commands of the context, the two provider events and the mount effect. The command
  \<open>refreshBalance\<close> of the context passes no account.
\<close>

datatype input =
    Connect
  | Disconnect
  | SwitchNetwork number
  | RefreshBalance
  | AccountsChanged "jsstring list"
  | ChainChanged jsstring
  | Mount

fun handle :: "window \<Rightarrow> WalletState \<Rightarrow> input \<Rightarrow> effect list" where
  "handle w s Connect = fst (connectWallet w)"
| "handle w s Disconnect = disconnectWallet w s"
| "handle w s (SwitchNetwork c) = fst (switchNetwork w s c)"
| "handle w s RefreshBalance = refreshBalance w s None"
| "handle w s (AccountsChanged accounts) = handleAccountsChanged w s accounts"
| "handle w s (ChainChanged hex) = handleChainChanged w s hex"
| "handle w s Mount = mountEffect w s"

text \<open>
  The two events come from the provider on which the mount effect registered the
  listeners, so they need a provider that the locator finds.
\<close>

fun deliverable :: "window \<Rightarrow> input \<Rightarrow> bool" where
  "deliverable w (AccountsChanged accounts) = (getTrustWalletProvider w \<noteq> None)"
| "deliverable w (ChainChanged hex) = (getTrustWalletProvider w \<noteq> None)"
| "deliverable w i = True"

text \<open>
  Handlers are asynchronous: a handler suspends at every request to the provider, and
  the actions of other handlers can reach the reducer in between. A configuration is the
  current snapshot together with, for every handler that has started, the actions it has
  yet to dispatch. A handler starts on the current snapshot (the one its closure holds)
  against whatever window and provider answers the environment presents at that moment;
  after that, any started handler dispatches its next action. A handler need not get
  to its end: one that is still waiting, or that an exception of the journal has cut
  short, has dispatched a prefix of its actions. A snapshot is reachable when it is the
  snapshot of a configuration of such a run.
\<close>

inductive running :: "WalletState \<Rightarrow> WalletAction list list \<Rightarrow> bool" where
  running_init: "running initialState []"
| running_start:
    "running s pending \<Longrightarrow> deliverable w i \<Longrightarrow> running s (dispatched (handle w s i) # pending)"
| running_dispatch:
    "running s (earlier @ (a # rest) # later)
      \<Longrightarrow> running (walletReducer s a) (earlier @ rest # later)"

inductive reachable :: "WalletState \<Rightarrow> bool" where
  reachable_running: "running s pending \<Longrightarrow> reachable s"

section \<open>Invariants of the snapshot\<close>

text \<open>A loading snapshot shows no error.\<close>

definition loadingClean :: "WalletState \<Rightarrow> bool" where
  "loadingClean s = (\<not> isLoading s \<or> error s = None)"

text \<open>A snapshot that is not connected names no account.\<close>

definition anonymous :: "WalletState \<Rightarrow> bool" where
  "anonymous s = (isConnected s \<or> account s = None)"

section \<open>A sample environment\<close>

text \<open>
  A provider that carries the brand flag, grants no account, reports chain 1, fails every
  balance query, does not know any chain it is asked to switch to, and never answers an
  add request; and a snapshot connected to account \<open>0xAAA\<close> on chain 1.
\<close>

definition internalError :: WalletError where
  "internalError = \<lparr>code = Some (- 32603), message = js ''Internal error''\<rparr>"

definition unknownChain :: WalletError where
  "unknownChain = \<lparr>code = Some 4902, message = js ''Unrecognized chain ID''\<rparr>"

definition barePeer :: peer where
  "barePeer =
     \<lparr>selectedAddress = None, accountsReply = Inr [], chainIdReply = Inr (js ''0x1''),
      balanceReply = (\<lambda>a. Inl internalError),
      switchReply = (\<lambda>h. Some (Inl unknownChain)),
      addReply = (\<lambda>n. None)\<rparr>"

definition bareProvider :: provider where
  "bareProvider = Provider True barePeer None"

definition bareWindow :: window where
  "bareWindow = Window (Some bareProvider)"

definition connectedState :: WalletState where
  "connectedState =
     \<lparr>isConnected = True, account = Some (js ''0xAAA''), chainId = Some (Num 1),
      balance = None, isLoading = False, error = None\<rparr>"

text \<open>
  The snapshot that \<open>connect\<close> leaves when the account is granted and the balance query
  fails.
\<close>

definition erroredState :: WalletState where
  "erroredState = connectedState\<lparr>error := Some (js ''Failed to get balance: Internal error'')\<rparr>"

text \<open>
  The same provider once it grants the account \<open>0xAAA\<close> (balance queries still fail), and
  once it also answers balance queries.
\<close>

definition grantingWindow :: window where
  "grantingWindow = Window (Some (Provider True (barePeer\<lparr>accountsReply := Inr [js ''0xAAA'']\<rparr>) None))"

definition fundedWindow :: window where
  "fundedWindow =
     Window (Some (Provider True
       (barePeer\<lparr>accountsReply := Inr [js ''0xAAA''], balanceReply := (\<lambda>a. Inr (js ''0x64''))\<rparr>)
       None))"

text \<open>
  A page with several wallets: \<open>window.ethereum\<close> does not carry the brand flag itself and
  lists the sample provider among its \<open>providers\<close>.
\<close>

definition hiddenWindow :: window where
  "hiddenWindow = Window (Some (Provider False barePeer (Some [bareProvider])))"

text \<open>
  The journal entry that \<open>connectWallet\<close> writes where it finds the account list empty.
\<close>

definition noAccountsEntry :: LogEntry where
  "noAccountsEntry =
     \<lparr>entryType = error_entry, entryMessage = js ''Connection failed - No accounts available'',
      details = Some (noDetails\<lparr>detailError := Some (js ''No accounts found'')\<rparr>)\<rparr>"


section \<open>Values held by the journal\<close>

text \<open>
  The journal is whatever \<open>JSON.parse\<close> returns; the code checks no shape. Values are
  therefore modelled untyped. A property whose value is \<open>undefined\<close> and an absent property
  read the same.
\<close>

datatype jsvalue =
    JUndefined
  | JNull
  | JBool bool
  | JNum number
  | JStr jsstring
  | JArr "jsvalue list"
  | JObj "(jsstring \<times> jsvalue) list"

fun truthy :: "jsvalue \<Rightarrow> bool" where
  "truthy JUndefined = False"
| "truthy JNull = False"
| "truthy (JBool b) = b"
| "truthy (JNum n) = truthyNumber (Some n)"
| "truthy (JStr s) = (s \<noteq> [])"
| "truthy (JArr xs) = True"
| "truthy (JObj ps) = True"

text \<open>
  Reading the property \<open>version\<close> or \<open>data\<close> of a value: a \<open>TypeError\<close> (\<open>None\<close>) on
  \<open>null\<close> and \<open>undefined\<close>, the member of an object, and \<open>undefined\<close> on every other value
  (no prototype defines these two names).
\<close>

fun getProp :: "jsvalue \<Rightarrow> jsstring \<Rightarrow> jsvalue option" where
  "getProp JUndefined k = None"
| "getProp JNull k = None"
| "getProp (JObj ps) k = Some (case map_of ps k of None \<Rightarrow> JUndefined | Some v \<Rightarrow> v)"
| "getProp v k = Some JUndefined"

section \<open>The host\<close>

text \<open>
  What the browser provides and the storage code calls: \<open>navigator.userAgent\<close>,
  \<open>JSON.stringify\<close>, \<open>JSON.parse\<close> (\<open>None\<close> when it throws a \<open>SyntaxError\<close>) and whether
  \<open>localStorage.setItem\<close> accepts a write (it throws when the quota is exceeded). Every
  theorem on the storage holds for every host. \<open>localStorage\<close> itself is a map from keys
  to strings whose reads and removals do not throw.
\<close>

record host =
  userAgent :: jsstring
  stringify :: "jsvalue \<Rightarrow> jsstring"
  parse :: "jsstring \<Rightarrow> jsvalue option"
  accepts :: "jsstring \<Rightarrow> jsstring \<Rightarrow> bool"

type_synonym localStorage = "jsstring \<rightharpoonup> jsstring"

section \<open>Base64: \<open>btoa\<close> and \<open>atob\<close>\<close>

definition latin1 :: "jsstring \<Rightarrow> bool" where
  "latin1 s = list_all (\<lambda>c. c \<le> 255) s"

text \<open>The alphabet \<open>A-Z a-z 0-9 + /\<close>, as character codes.\<close>

definition b64code :: "nat \<Rightarrow> nat" where
  "b64code i =
     (if i < 26 then 65 + i
      else if i < 52 then 71 + i
      else if i < 62 then i - 4
      else if i = 62 then 43
      else 47)"

definition b64value :: "nat \<Rightarrow> nat option" where
  "b64value c =
     (if 65 \<le> c \<and> c \<le> 90 then Some (c - 65)
      else if 97 \<le> c \<and> c \<le> 122 then Some (c - 71)
      else if 48 \<le> c \<and> c \<le> 57 then Some (c + 4)
      else if c = 43 then Some 62
      else if c = 47 then Some 63
      else None)"

definition b64char :: "nat \<Rightarrow> 16 word" where
  "b64char i = of_nat (b64code i)"

definition b64index :: "16 word \<Rightarrow> nat option" where
  "b64index c = b64value (unat c)"

text \<open>Three bytes give four six-bit groups; a last group of one or two bytes gives two or three.\<close>

fun sextets :: "nat list \<Rightarrow> nat list" where
  "sextets (a # b # c # rest) =
     a div 4 # ((a mod 4) * 16 + b div 16) # ((b mod 16) * 4 + c div 64) # c mod 64 # sextets rest"
| "sextets [a, b] = [a div 4, (a mod 4) * 16 + b div 16, (b mod 16) * 4]"
| "sextets [a] = [a div 4, (a mod 4) * 16]"
| "sextets [] = []"

definition padding :: "nat \<Rightarrow> jsstring" where
  "padding n = replicate ((3 - n mod 3) mod 3) 61"

text \<open>\<open>btoa\<close> throws on a code unit above 255 and else encodes the code units as bytes.\<close>

definition btoa :: "jsstring \<Rightarrow> jsstring option" where
  "btoa s =
     (if latin1 s then Some (map b64char (sextets (map unat s)) @ padding (length s))
      else None)"

definition asciiWhitespace :: "16 word \<Rightarrow> bool" where
  "asciiWhitespace c \<longleftrightarrow> c = 9 \<or> c = 10 \<or> c = 12 \<or> c = 13 \<or> c = 32"

text \<open>One or two \<open>=\<close> at the end are removed.\<close>

definition stripPadding :: "jsstring \<Rightarrow> jsstring" where
  "stripPadding d =
     (case rev d of
        a # b # r \<Rightarrow> if a = 61 then (if b = 61 then rev r else rev (b # r)) else d
      | [a] \<Rightarrow> if a = 61 then [] else d
      | [] \<Rightarrow> d)"

text \<open>Four groups give three bytes; three left over give two, two give one (spare bits dropped).\<close>

fun octets :: "nat list \<Rightarrow> nat list" where
  "octets (p # q # r # s # rest) =
     (p * 4 + q div 16) # ((q mod 16) * 16 + r div 4) # ((r mod 4) * 64 + s) # octets rest"
| "octets [p, q, r] = [p * 4 + q div 16, (q mod 16) * 16 + r div 4]"
| "octets [p, q] = [p * 4 + q div 16]"
| "octets ps = []"

text \<open>
  \<open>atob\<close>, the forgiving decoder: ASCII white space is removed; when the length is then a
  multiple of four, padding is removed; a length of one modulo four, or any character
  outside the alphabet, makes it throw (\<open>None\<close>).
\<close>

definition atob :: "jsstring \<Rightarrow> jsstring option" where
  "atob s =
     (let d = filter (\<lambda>c. \<not> asciiWhitespace c) s;
          d' = (if length d mod 4 = 0 then stripPadding d else d)
      in if length d' mod 4 = 1 then None
         else (case those (map b64index d') of
                 None \<Rightarrow> None
               | Some ps \<Rightarrow> Some (map of_nat (octets ps))))"

section \<open>\<open>EncryptedStorage\<close>\<close>

text \<open>
  \<open>key.charCodeAt(i % key.length)\<close>; with the empty key the index is \<open>NaN\<close>, the code
  unit read is \<open>NaN\<close>, and the exclusive or with it changes nothing.
\<close>

definition keyUnit :: "jsstring \<Rightarrow> nat \<Rightarrow> 16 word" where
  "keyUnit key i = (if key = [] then 0 else key ! (i mod length key))"

text \<open>The loop of \<open>encrypt\<close> and of \<open>decrypt\<close>, from index \<open>i\<close> on.\<close>

primrec xorFrom :: "jsstring \<Rightarrow> nat \<Rightarrow> jsstring \<Rightarrow> jsstring" where
  "xorFrom key i [] = []"
| "xorFrom key i (d # ds) = (d XOR keyUnit key i) # xorFrom key (Suc i) ds"

definition encrypt :: "jsstring \<Rightarrow> jsstring \<Rightarrow> jsstring option" where
  "encrypt data key = btoa (xorFrom key 0 data)"

definition decrypt :: "jsstring \<Rightarrow> jsstring \<Rightarrow> jsstring option" where
  "decrypt encryptedData key =
     (case atob encryptedData of
        None \<Rightarrow> None
      | Some data \<Rightarrow> Some (xorFrom key 0 data))"

text \<open>\<open>decrypt(encrypt(data, key), key)\<close>, with \<open>None\<close> when either call throws.\<close>

definition roundTrip :: "jsstring \<Rightarrow> jsstring \<Rightarrow> jsstring option" where
  "roundTrip data key =
     (case encrypt data key of
        None \<Rightarrow> None
      | Some e \<Rightarrow> decrypt e key)"

definition getEncryptionKey :: "host \<Rightarrow> jsstring" where
  "getEncryptionKey h = js ''trust_wallet_'' @ take 20 (userAgent h)"

text \<open>\<open>data.replace(/\s+/g, ' ')\<close>: every maximal run of white space becomes one space.\<close>

function collapse :: "jsstring \<Rightarrow> jsstring" where
  "collapse [] = []"
| "collapse (c # cs) =
     (if isWhiteSpace c then 32 # collapse (dropWhile isWhiteSpace cs) else c # collapse cs)"
  by pat_completeness auto
termination
  by (relation "measure length") (auto simp: length_dropWhile_le less_Suc_eq_le)

definition trim :: "jsstring \<Rightarrow> jsstring" where
  "trim s = rev (dropWhile isWhiteSpace (rev (dropWhile isWhiteSpace s)))"

definition compress :: "jsstring \<Rightarrow> jsstring" where
  "compress data = trim (collapse data)"

definition decompress :: "jsstring \<Rightarrow> jsstring" where
  "decompress data = data"

definition storageKey :: jsstring where
  "storageKey = js ''trust_wallet_dex_data''"

definition version :: jsstring where
  "version = js ''1.0.0''"

definition fullKey :: "jsstring \<Rightarrow> jsstring" where
  "fullKey key = storageKey @ js ''_'' @ key"

text \<open>The envelope \<open>StorageItem\<close> written around the data at clock reading \<open>now\<close>.\<close>

definition storageItem :: "jsvalue \<Rightarrow> int \<Rightarrow> jsvalue" where
  "storageItem v now =
     JObj [(js ''data'', v), (js ''timestamp'', JNum (Num now)), (js ''version'', JStr version)]"

text \<open>
  \<open>setItem\<close>: \<open>false\<close> when encoding or the write throws, and then nothing is written.
\<close>

definition setItem :: "host \<Rightarrow> localStorage \<Rightarrow> jsstring \<Rightarrow> jsvalue \<Rightarrow> int \<Rightarrow> bool \<times> localStorage" where
  "setItem h ls key v now =
     (let jsonString = stringify h (storageItem v now);
          compressed = compress jsonString
      in case encrypt compressed (getEncryptionKey h) of
           None \<Rightarrow> (False, ls)
         | Some encrypted \<Rightarrow>
             if accepts h (fullKey key) encrypted
             then (True, ls(fullKey key \<mapsto> encrypted))
             else (False, ls))"

definition removeItem :: "localStorage \<Rightarrow> jsstring \<Rightarrow> bool \<times> localStorage" where
  "removeItem ls key = (True, ls(fullKey key := None))"

text \<open>
  \<open>getItem\<close>: \<open>null\<close> for an absent or empty slot; \<open>null\<close> from the \<open>catch\<close> block, with the
  storage untouched, when decoding or parsing throws or the parsed value has no properties
  to read; \<open>null\<close> after removing the slot when the version differs; else the data.
\<close>

definition getItem :: "host \<Rightarrow> localStorage \<Rightarrow> jsstring \<Rightarrow> jsvalue \<times> localStorage" where
  "getItem h ls key =
     (case ls (fullKey key) of
        None \<Rightarrow> (JNull, ls)
      | Some encrypted \<Rightarrow>
          if encrypted = [] then (JNull, ls)
          else (case decrypt encrypted (getEncryptionKey h) of
                  None \<Rightarrow> (JNull, ls)
                | Some compressed \<Rightarrow>
                    (case parse h (decompress compressed) of
                       None \<Rightarrow> (JNull, ls)
                     | Some item \<Rightarrow>
                         (case getProp item (js ''version'') of
                            None \<Rightarrow> (JNull, ls)
                          | Some ver \<Rightarrow>
                              if ver \<noteq> JStr version then (JNull, snd (removeItem ls key))
                              else (case getProp item (js ''data'') of
                                      None \<Rightarrow> (JNull, ls)
                                    | Some d \<Rightarrow> (d, ls))))))"

section \<open>\<open>ActivityLogManager\<close>\<close>

definition maxLogEntries :: nat where
  "maxLogEntries = 100"

definition logKey :: jsstring where
  "logKey = js ''activity_logs''"

text \<open>\<open>getLogs\<close>: \<open>getItem(logKey) || []\<close>.\<close>

definition getLogs :: "host \<Rightarrow> localStorage \<Rightarrow> jsvalue \<times> localStorage" where
  "getLogs h ls =
     (case getItem h ls logKey of
        (v, ls') \<Rightarrow> (if truthy v then v else JArr [], ls'))"

text \<open>
  What one call of \<open>addLogEntry\<close> reads from its environment: \<open>Date.now()\<close> for the id,
  \<open>Math.random().toString(36)\<close>, \<open>Date.now()\<close> for the timestamp, and \<open>Date.now()\<close> in
  \<open>setItem\<close>.
\<close>

record ticks =
  idNow :: int
  random36 :: jsstring
  stampNow :: int
  writeNow :: int

fun typeName :: "entry_type \<Rightarrow> jsstring" where
  "typeName connection = js ''connection''"
| "typeName disconnection = js ''disconnection''"
| "typeName network_switch = js ''network_switch''"
| "typeName transaction = js ''transaction''"
| "typeName error_entry = js ''error''"

definition optionalProp :: "jsstring \<Rightarrow> jsvalue option \<Rightarrow> (jsstring \<times> jsvalue) list" where
  "optionalProp k v = (case v of None \<Rightarrow> [] | Some x \<Rightarrow> [(k, x)])"

definition detailsObject :: "LogDetails \<Rightarrow> jsvalue" where
  "detailsObject d =
     JObj (optionalProp (js ''account'') (map_option JStr (detailAccount d))
           @ optionalProp (js ''chainId'') (map_option JNum (detailChainId d))
           @ optionalProp (js ''networkName'') (map_option JStr (detailNetworkName d))
           @ optionalProp (js ''error'') (map_option JStr (detailError d)))"

text \<open>
  The id \<open>`${Date.now()}_${Math.random().toString(36).substr(2, 9)}`\<close>. A clock reading is
  an integral time value of at most \<open>8.64 * 10^15\<close> in magnitude, below \<open>2^53\<close>, so it is
  printed in full.
\<close>

definition entryId :: "ticks \<Rightarrow> jsstring" where
  "entryId t = intToString (idNow t) @ js ''_'' @ take 9 (drop 2 (random36 t))"

text \<open>The object \<open>{...entry, id, timestamp}\<close>.\<close>

definition newEntry :: "LogEntry \<Rightarrow> ticks \<Rightarrow> jsvalue" where
  "newEntry entry t =
     JObj ([(js ''type'', JStr (typeName (entryType entry))),
            (js ''message'', JStr (entryMessage entry))]
           @ optionalProp (js ''details'') (map_option detailsObject (details entry))
           @ [(js ''id'', JStr (entryId t)), (js ''timestamp'', JNum (Num (stampNow t)))])"

text \<open>\<open>logs.splice(maxLogEntries)\<close> when the list is longer.\<close>

definition truncateLogs :: "jsvalue list \<Rightarrow> jsvalue list" where
  "truncateLogs logs = (if length logs > maxLogEntries then take maxLogEntries logs else logs)"

datatype thrown = TypeError

text \<open>
  \<open>addLogEntry\<close>. \<open>logs.unshift\<close> is a function only when the value read is an array; on any
  other truthy value the call throws a \<open>TypeError\<close>, which \<open>addLogEntry\<close> does not catch.
\<close>

definition addLogEntry ::
  "host \<Rightarrow> localStorage \<Rightarrow> LogEntry \<Rightarrow> ticks \<Rightarrow> (thrown + bool) \<times> localStorage" where
  "addLogEntry h ls entry t =
     (case getLogs h ls of
        (JArr logs, ls') \<Rightarrow>
          (case setItem h ls' logKey (JArr (truncateLogs (newEntry entry t # logs))) (writeNow t) of
             (ok, ls'') \<Rightarrow> (Inr ok, ls''))
      | (v, ls') \<Rightarrow> (Inl TypeError, ls'))"

text \<open>A sequence of appends, each on the storage the previous one left.\<close>

fun appendAll :: "host \<Rightarrow> localStorage \<Rightarrow> (LogEntry \<times> ticks) list \<Rightarrow> localStorage" where
  "appendAll h ls [] = ls"
| "appendAll h ls ((entry, t) # rest) = appendAll h (snd (addLogEntry h ls entry t)) rest"

text \<open>
  What a handler of the wallet does to the storage: every entry it passes to
  \<open>activityLogger.addLogEntry\<close> is appended, in order, each call with its own readings of
  the clock and of the random source.
\<close>

definition journalEffects :: "host \<Rightarrow> localStorage \<Rightarrow> effect list \<Rightarrow> ticks list \<Rightarrow> localStorage" where
  "journalEffects h ls es ts = appendAll h ls (zip (journaled es) ts)"

section \<open>A reference host\<close>

text \<open>
  A host to run the storage on: \<open>JSON.stringify\<close> and \<open>JSON.parse\<close> for the values above
  (numbers are integers, so the parser accepts no fraction and no exponent), a user
  agent, and a \<open>localStorage\<close> that accepts every write.
\<close>

definition hexChar :: "nat \<Rightarrow> 16 word" where
  "hexChar d = (if d < 10 then of_nat (48 + d) else of_nat (87 + d))"

definition hex4 :: "16 word \<Rightarrow> jsstring" where
  "hex4 c =
     (let n = unat c
      in [hexChar (n div 4096), hexChar (n div 256 mod 16), hexChar (n div 16 mod 16),
          hexChar (n mod 16)])"

definition isHighSurrogate :: "16 word \<Rightarrow> bool" where
  "isHighSurrogate c \<longleftrightarrow> 55296 \<le> c \<and> c \<le> 56319"

definition isLowSurrogate :: "16 word \<Rightarrow> bool" where
  "isLowSurrogate c \<longleftrightarrow> 56320 \<le> c \<and> c \<le> 57343"

text \<open>
  The characters of a string between its quotes: the two-character escapes, \<open>\u00xx\<close> for
  the other control characters and for surrogates that are not paired.
\<close>

fun quoteChars :: "jsstring \<Rightarrow> jsstring" where
  "quoteChars [] = []"
| "quoteChars [c] =
     (if c = 8 then [92, 98] else if c = 9 then [92, 116] else if c = 10 then [92, 110]
      else if c = 12 then [92, 102] else if c = 13 then [92, 114]
      else if c = 34 then [92, 34] else if c = 92 then [92, 92]
      else if c < 32 \<or> isHighSurrogate c \<or> isLowSurrogate c then [92, 117] @ hex4 c
      else [c])"
| "quoteChars (c # d # cs) =
     (if isHighSurrogate c \<and> isLowSurrogate d then c # d # quoteChars cs
      else quoteChars [c] @ quoteChars (d # cs))"

definition quote :: "jsstring \<Rightarrow> jsstring" where
  "quote s = [34] @ quoteChars s @ [34]"

definition commaJoin :: "jsstring list \<Rightarrow> jsstring" where
  "commaJoin parts = concat (case parts of [] \<Rightarrow> [] | p # ps \<Rightarrow> p # map (\<lambda>q. 44 # q) ps)"

text \<open>
  \<open>JSON.stringify\<close>: \<open>NaN\<close> and the infinities are written \<open>null\<close>, an \<open>undefined\<close> array element is written
  \<open>null\<close>, and a member whose value is \<open>undefined\<close> is left out.
\<close>

fun JSON_stringify :: "jsvalue \<Rightarrow> jsstring" where
  "JSON_stringify JUndefined = js ''null''"
| "JSON_stringify JNull = js ''null''"
| "JSON_stringify (JBool b) = (if b then js ''true'' else js ''false'')"
| "JSON_stringify (JNum (Num n)) = numberToString (Num n)"
| "JSON_stringify (JNum x) = js ''null''"
| "JSON_stringify (JStr s) = quote s"
| "JSON_stringify (JArr xs) = [91] @ commaJoin (map JSON_stringify xs) @ [93]"
| "JSON_stringify (JObj ps) =
     [123]
     @ commaJoin (map (\<lambda>p. quote (fst p) @ [58] @ JSON_stringify (snd p))
                      (filter (\<lambda>p. snd p \<noteq> JUndefined) ps))
     @ [125]"

definition jsonWhitespace :: "16 word \<Rightarrow> bool" where
  "jsonWhitespace c \<longleftrightarrow> c = 9 \<or> c = 10 \<or> c = 13 \<or> c = 32"

definition skipWs :: "jsstring \<Rightarrow> jsstring" where
  "skipWs s = dropWhile jsonWhitespace s"

definition hexValue :: "16 word \<Rightarrow> nat option" where
  "hexValue c = map_option nat (hexDigit c)"

text \<open>A string literal after its opening quote: its characters and what follows the closing quote.\<close>

fun parseChars :: "jsstring \<Rightarrow> (jsstring \<times> jsstring) option" where
  "parseChars [] = None"
| "parseChars (c # cs) =
     (if c = 34 then Some ([], cs)
      else if c < 32 then None
      else if c = 92 then
        (case cs of
           [] \<Rightarrow> None
         | e # es \<Rightarrow>
             if e = 117 then
               (case es of
                  h1 # h2 # h3 # h4 # rest \<Rightarrow>
                    (case (hexValue h1, hexValue h2, hexValue h3, hexValue h4) of
                       (Some a, Some b, Some c', Some d) \<Rightarrow>
                         map_option (\<lambda>(str, r). (of_nat (a * 4096 + b * 256 + c' * 16 + d) # str, r))
                           (parseChars rest)
                     | _ \<Rightarrow> None)
                | _ \<Rightarrow> None)
             else
               (case (if e = 34 then Some 34 else if e = 92 then Some 92
                      else if e = 47 then Some 47 else if e = 98 then Some 8
                      else if e = 102 then Some 12 else if e = 110 then Some 10
                      else if e = 114 then Some 13 else if e = 116 then Some 9
                      else None) of
                  None \<Rightarrow> None
                | Some u \<Rightarrow> map_option (\<lambda>(str, r). (u # str, r)) (parseChars es)))
      else map_option (\<lambda>(str, r). (c # str, r)) (parseChars cs))"

definition isDigit :: "16 word \<Rightarrow> bool" where
  "isDigit c \<longleftrightarrow> 48 \<le> c \<and> c \<le> 57"

definition digitsValue :: "jsstring \<Rightarrow> int" where
  "digitsValue ds = foldl (\<lambda>a c. 10 * a + (uint c - 48)) 0 ds"

text \<open>
  An integer literal: an optional minus sign, then \<open>0\<close> or a digit from 1 to 9 followed
  by digits. A fraction or an exponent after it is not accepted.
\<close>

definition parseNumber :: "jsstring \<Rightarrow> (number \<times> jsstring) option" where
  "parseNumber s =
     (let (sign, body) = (case s of c # cs \<Rightarrow> if c = 45 then (- 1, cs) else (1, s) | [] \<Rightarrow> (1, s));
          ds = (case body of
                  c # cs \<Rightarrow> if c = 48 then [c] else takeWhile isDigit body
                | [] \<Rightarrow> []);
          rest = drop (length ds) body
      in if ds = [] then None
         else (case rest of
                 c # cs \<Rightarrow> if c = 46 \<or> c = 101 \<or> c = 69 then None
                            else Some (toDouble (sign * digitsValue ds), rest)
               | [] \<Rightarrow> Some (toDouble (sign * digitsValue ds), rest)))"

text \<open>A later member with the same name replaces the value of the earlier one.\<close>

definition addMember :: "jsstring \<Rightarrow> jsvalue \<Rightarrow> (jsstring \<times> jsvalue) list \<Rightarrow> (jsstring \<times> jsvalue) list" where
  "addMember k v ps =
     (case map_of ps k of
        None \<Rightarrow> (k, v) # ps
      | Some v' \<Rightarrow> (k, v') # filter (\<lambda>p. fst p \<noteq> k) ps)"

text \<open>
  Recursive descent. The first argument bounds the depth of the calls (running out of it
  reads as a syntax error); \<open>JSON_parse\<close> starts with two more than twice the length of
  the text, and every second call at the latest consumes a character.
\<close>

fun parseValue :: "nat \<Rightarrow> jsstring \<Rightarrow> (jsvalue \<times> jsstring) option"
  and parseElements :: "nat \<Rightarrow> jsstring \<Rightarrow> (jsvalue list \<times> jsstring) option"
  and parseMembers :: "nat \<Rightarrow> jsstring \<Rightarrow> ((jsstring \<times> jsvalue) list \<times> jsstring) option" where
  "parseValue 0 s = None"
| "parseValue (Suc n) s =
     (case skipWs s of
        [] \<Rightarrow> None
      | c # cs \<Rightarrow>
          if c = 123 then
            (case skipWs cs of
               [] \<Rightarrow> None
             | d # ds \<Rightarrow>
                 if d = 125 then Some (JObj [], ds)
                 else map_option (\<lambda>(ps, r). (JObj ps, r)) (parseMembers n (d # ds)))
          else if c = 91 then
            (case skipWs cs of
               [] \<Rightarrow> None
             | d # ds \<Rightarrow>
                 if d = 93 then Some (JArr [], ds)
                 else map_option (\<lambda>(xs, r). (JArr xs, r)) (parseElements n (d # ds)))
          else if c = 34 then map_option (\<lambda>(str, r). (JStr str, r)) (parseChars cs)
          else if prefix (js ''true'') (c # cs) then Some (JBool True, drop 4 (c # cs))
          else if prefix (js ''false'') (c # cs) then Some (JBool False, drop 5 (c # cs))
          else if prefix (js ''null'') (c # cs) then Some (JNull, drop 4 (c # cs))
          else map_option (\<lambda>(x, r). (JNum x, r)) (parseNumber (c # cs)))"
| "parseElements 0 s = None"
| "parseElements (Suc n) s =
     (case parseValue n s of
        None \<Rightarrow> None
      | Some (v, r) \<Rightarrow>
          (case skipWs r of
             [] \<Rightarrow> None
           | c # cs \<Rightarrow>
               if c = 44 then map_option (\<lambda>(vs, r'). (v # vs, r')) (parseElements n cs)
               else if c = 93 then Some ([v], cs)
               else None))"
| "parseMembers 0 s = None"
| "parseMembers (Suc n) s =
     (case skipWs s of
        [] \<Rightarrow> None
      | q # qs \<Rightarrow>
          if q \<noteq> 34 then None
          else (case parseChars qs of
                  None \<Rightarrow> None
                | Some (k, r) \<Rightarrow>
                    (case skipWs r of
                       [] \<Rightarrow> None
                     | c # cs \<Rightarrow>
                         if c \<noteq> 58 then None
                         else (case parseValue n cs of
                                 None \<Rightarrow> None
                               | Some (v, r') \<Rightarrow>
                                   (case skipWs r' of
                                      [] \<Rightarrow> None
                                    | e # es \<Rightarrow>
                                        if e = 44
                                        then map_option (\<lambda>(ps, r''). (addMember k v ps, r''))
                                               (parseMembers n es)
                                        else if e = 125 then Some ([(k, v)], es)
                                        else None)))))"

definition JSON_parse :: "jsstring \<Rightarrow> jsvalue option" where
  "JSON_parse text =
     (case parseValue (2 * length text + 2) text of
        None \<Rightarrow> None
      | Some (v, r) \<Rightarrow> if skipWs r = [] then Some v else None)"

definition refHost :: host where
  "refHost =
     \<lparr>userAgent = js ''Mozilla/5.0 (X11; Linux x86_64) AppleWebKit/537.36'',
      stringify = JSON_stringify, parse = JSON_parse, accepts = (\<lambda>k v. True)\<rparr>"

section \<open>Appending in sequence\<close>

text \<open>
  A journal value can be stored at a clock reading when encoding its envelope does not
  throw, the host accepts the write, and the host parses the compacted text back to the
  envelope. (White space inside a string is compacted too, so a host following the JSON
  grammar parses back a different envelope when a string holds a run of white space.)
\<close>

definition storable :: "host \<Rightarrow> jsvalue \<Rightarrow> int \<Rightarrow> bool" where
  "storable h v now =
     (let compressed = compress (stringify h (storageItem v now))
      in case encrypt compressed (getEncryptionKey h) of
           None \<Rightarrow> False
         | Some encrypted \<Rightarrow>
             encrypted \<noteq> [] \<and> accepts h (fullKey logKey) encrypted
             \<and> parse h compressed = Some (storageItem v now))"

text \<open>The journal that a sequence of appends builds from a journal, in memory.\<close>

fun journalAfter :: "jsvalue list \<Rightarrow> (LogEntry \<times> ticks) list \<Rightarrow> jsvalue list" where
  "journalAfter logs [] = logs"
| "journalAfter logs ((entry, t) # rest) =
     journalAfter (truncateLogs (newEntry entry t # logs)) rest"

text \<open>Every journal on the way can be stored at the clock reading of its append.\<close>

fun allStorable :: "host \<Rightarrow> jsvalue list \<Rightarrow> (LogEntry \<times> ticks) list \<Rightarrow> bool" where
  "allStorable h logs [] = True"
| "allStorable h logs ((entry, t) # rest) =
     (storable h (JArr (truncateLogs (newEntry entry t # logs))) (writeNow t)
      \<and> allStorable h (truncateLogs (newEntry entry t # logs)) rest)"

section \<open>Sample journal entries\<close>

definition failureEntry :: LogEntry where
  "failureEntry =
     \<lparr>entryType = error_entry, entryMessage = js ''failed'',
      details = Some (noDetails\<lparr>detailError := Some (js ''boom'')\<rparr>)\<rparr>"

definition goodbyeEntry :: LogEntry where
  "goodbyeEntry = \<lparr>entryType = disconnection, entryMessage = js ''bye'', details = None\<rparr>"

text \<open>
  A failure whose error text, as the provider worded it, is the typographic apostrophe
  U+2019.
\<close>

definition foreignEntry :: LogEntry where
  "foreignEntry =
     \<lparr>entryType = error_entry, entryMessage = js ''failed'',
      details = Some (noDetails\<lparr>detailError := Some [8217]\<rparr>)\<rparr>"

text \<open>
  Two appends in the same millisecond whose random strings agree on the nine characters
  that the id keeps.
\<close>

definition firstTicks :: ticks where
  "firstTicks = \<lparr>idNow = 17, random36 = js ''0.4fzyo82mvyr'', stampNow = 17, writeNow = 17\<rparr>"

definition laterTicks :: ticks where
  "laterTicks = \<lparr>idNow = 17, random36 = js ''0.4fzyo82mvzz'', stampNow = 18, writeNow = 18\<rparr>"

text \<open>The envelopes of the journal after the first and after the second of these appends.\<close>

definition firstEnvelope :: jsstring where
  "firstEnvelope =
     js ''{\"data\":[{\"type\":\"error\",\"message\":\"failed\",\"details\":{\"error\":\"boom\"},\"id\":\"17_4fzyo82mv\",\"timestamp\":17}],\"timestamp\":17,\"version\":\"1.0.0\"}''"

definition secondEnvelope :: jsstring where
  "secondEnvelope =
     js ''{\"data\":[{\"type\":\"disconnection\",\"message\":\"bye\",\"id\":\"17_4fzyo82mv\",\"timestamp\":18},{\"type\":\"error\",\"message\":\"failed\",\"details\":{\"error\":\"boom\"},\"id\":\"17_4fzyo82mv\",\"timestamp\":17}],\"timestamp\":18,\"version\":\"1.0.0\"}''"

text \<open>
  The envelope of the journal that holds the entry of a connection attempt without
  accounts, appended at the first of these readings to an empty journal.
\<close>

definition noAccountsEnvelope :: jsstring where
  "noAccountsEnvelope =
     js ''{\"data\":[{\"type\":\"error\",\"message\":\"Connection failed - No accounts available\",\"details\":{\"error\":\"No accounts found\"},\"id\":\"17_4fzyo82mv\",\"timestamp\":17}],\"timestamp\":17,\"version\":\"1.0.0\"}''"

text \<open>The reference host once its storage is full: every write is refused.\<close>

definition fullHost :: host where
  "fullHost = refHost\<lparr>accepts := (\<lambda>k v. False)\<rparr>"

text \<open>
  Four journal slots: one that is not Base64, and the texts \<open>{\<close>, \<open>null\<close> and
  \<open>{"version":"0"}\<close> as the store encodes them under the key of the reference host.
\<close>

definition corruptStorage :: localStorage where
  "corruptStorage = [fullKey logKey \<mapsto> js ''!'']"

definition brokenStorage :: localStorage where
  "brokenStorage = [fullKey logKey \<mapsto> js ''Dw=='']"

definition nullStorage :: localStorage where
  "nullStorage = [fullKey logKey \<mapsto> js ''GgcZHw=='']"

definition staleStorage :: localStorage where
  "staleStorage = [fullKey logKey \<mapsto> js ''D1ADFgYsHg4CTl9Wb28S'']"

text \<open>Code units 33 to 126: no white space, nothing that \<open>btoa\<close> rejects.\<close>

definition printable :: "jsstring \<Rightarrow> bool" where
  "printable s = list_all (\<lambda>c. 33 \<le> c \<and> c \<le> 126) s"

text \<open>The number that a string of decimal digits denotes.\<close>

definition digitsNat :: "jsstring \<Rightarrow> nat" where
  "digitsNat ds = foldl (\<lambda>a c. 10 * a + (unat c - 48)) 0 ds"
declare digits10.simps [simp del] bitLength.simps [simp del] trailingZeros.simps [simp del]


section \<open>Effects of the utilities and handlers\<close>

lemma dispatched_append: "dispatched (xs @ ys) = dispatched xs @ dispatched ys"
  by (induction xs rule: dispatched.induct) simp_all

lemma journaled_append: "journaled (xs @ ys) = journaled xs @ journaled ys"
  by (induction xs rule: journaled.induct) simp_all

lemma requested_append: "requested (xs @ ys) = requested xs @ requested ys"
  by (induction xs rule: requested.induct) simp_all

lemma dispatched_getBalance: "dispatched (fst (getBalance w t)) = []"
  by (simp add: getBalance_def split: option.splits)

lemma dispatched_requestAccounts: "dispatched (fst (requestAccounts w)) = []"
  by (simp add: requestAccounts_def split: option.splits)

lemma journaled_requestAccounts: "journaled (fst (requestAccounts w)) = []"
  by (simp add: requestAccounts_def split: option.splits)

lemma dispatched_getChainId: "dispatched (fst (getChainId w)) = []"
  by (simp add: getChainId_def split: option.splits)

lemma dispatched_switchNetworkUtil: "dispatched (fst (switchNetworkUtil w c)) = []"
  by (simp add: switchNetworkUtil_def split: option.splits sum.splits)

lemma dispatched_fetch:
  "dispatched (case getBalance w t of
                  (rq, Inr b) \<Rightarrow> rq @ [Dispatch (SET_BALANCE b)]
                | (rq, Inl e) \<Rightarrow>
                    rq @ [Dispatch (SET_ERROR (Some (js ''Failed to get balance: '' @ message e)))])
   = (case snd (getBalance w t) of
        Inr b \<Rightarrow> [SET_BALANCE b]
      | Inl e \<Rightarrow> [SET_ERROR (Some (js ''Failed to get balance: '' @ message e))])"
  using dispatched_getBalance[of w t]
  by (cases "getBalance w t") (simp add: dispatched_append split: sum.splits)

text \<open>
  What \<open>refreshBalance\<close> dispatches: nothing without a target account, else the balance
  or the wrapped failure.
\<close>

lemma dispatched_refreshBalance:
  "dispatched (refreshBalance w s acc) =
     (case (if truthyString acc then acc else account s) of
        None \<Rightarrow> []
      | Some t \<Rightarrow>
          if t = [] then []
          else (case snd (getBalance w t) of
                  Inr b \<Rightarrow> [SET_BALANCE b]
                | Inl e \<Rightarrow> [SET_ERROR (Some (js ''Failed to get balance: '' @ message e))]))"
  unfolding refreshBalance_def
  by (simp only: dispatched_fetch option.case_distrib[of dispatched] if_distrib[of dispatched]
      dispatched.simps)

lemma dispatched_connectCatch: "dispatched (connectCatch e) = [SET_ERROR (Some (message e))]"
  by (simp add: connectCatch_def dispatched_append)

lemma str_includes_refl: "str_includes s s"
  by (cases s) simp_all

lemmas sample_defs =
  bareWindow_def bareProvider_def barePeer_def connectedState_def internalError_def
  unknownChain_def

lemmas parse_defs =
  hexToDecimal_def parseInt16_def isWhiteSpace_def stripSign_def stripHexPrefix_def hexDigit_def
  toDouble_def

section \<open>Numbers beyond \<open>2^53\<close>\<close>

text \<open>
  \<open>parseInt\<close> rounds \<open>2^53 + 1\<close> to \<open>2^53\<close>, and a template literal prints \<open>10^21\<close> as
  \<open>1e+21\<close>.
\<close>

lemma bitLength_54: "bitLength 9007199254740993 = 54"
  by (simp add: bitLength.simps)

lemma hexToDecimal_rounds:
  "hexToDecimal (js ''0x20000000000001'') = Num 9007199254740992"
  by (simp add: parse_defs js_def roundNat_def bitLength_54 Let_def)

lemma numberToString_exponent:
  "numberToString (Num 1000000000000000000000) = js ''1e+21''"
  by (simp add: bigToString_def roundNat_def bitLength.simps digits10.simps trailingZeros.simps
      Let_def js_def)

section \<open>Sample runs\<close>

lemma dispatch_first:
  "running s ((a # rest) # later) \<Longrightarrow> running (walletReducer s a) (rest # later)"
  using running_dispatch[of s "[]" a rest later] by simp

lemma dispatch_second:
  "running s (p # (a # rest) # later) \<Longrightarrow> running (walletReducer s a) (p # rest # later)"
  using running_dispatch[of s "[p]" a rest later] by simp

lemma connect_granting:
  "dispatched (handle grantingWindow s Connect)
   = [SET_LOADING True, SET_CONNECTED (js ''0xAAA'') (Num 1),
      SET_ERROR (Some (js ''Failed to get balance: Internal error''))]"
  by (simp add: connectWallet_def requestAccounts_def getChainId_def getBalance_def
      refreshBalance_def grantingWindow_def barePeer_def internalError_def parse_defs js_def
      truthyString_def Let_def)

lemma connect_funded:
  "dispatched (handle fundedWindow s Connect)
   = [SET_LOADING True, SET_CONNECTED (js ''0xAAA'') (Num 1), SET_BALANCE (js ''0x64'')]"
  by (simp add: connectWallet_def requestAccounts_def getChainId_def getBalance_def
      refreshBalance_def fundedWindow_def barePeer_def parse_defs js_def truthyString_def Let_def)

lemma disconnect_dispatches: "dispatched (handle w s Disconnect) = [SET_DISCONNECTED]"
  by (simp add: disconnectWallet_def split: option.splits)

lemma chainChanged_initial:
  "dispatched (handle fundedWindow initialState (ChainChanged (js ''0x1''))) = [SET_CHAIN_ID (Num 1)]"
  by (simp add: handleChainChanged_def parse_defs js_def initialState_def truthyString_def)

lemma refresh_errored:
  "dispatched (handle fundedWindow erroredState RefreshBalance) = [SET_BALANCE (js ''0x64'')]"
  by (simp add: refreshBalance_def getBalance_def fundedWindow_def barePeer_def erroredState_def
      connectedState_def js_def truthyString_def)

text \<open>\<open>connect\<close>, granted the account and refused the balance, run to its end.\<close>

lemma run_errored: "running erroredState [[]]"
proof -
  have "running initialState [dispatched (handle grantingWindow initialState Connect)]"
    by (rule running_start) (simp_all add: running_init)
  then have "running initialState
      [[SET_LOADING True, SET_CONNECTED (js ''0xAAA'') (Num 1),
        SET_ERROR (Some (js ''Failed to get balance: Internal error''))]]"
    by (simp only: connect_granting)
  from dispatch_first[OF dispatch_first[OF dispatch_first[OF this]]]
  show ?thesis by (simp add: initialState_def erroredState_def connectedState_def)
qed

text \<open>
  \<open>connect\<close> up to its balance query; \<open>disconnect\<close> while the query is open; then the
  answer of the query.
\<close>

lemma run_late_balance: "running (initialState\<lparr>balance := Some (js ''0x64'')\<rparr>) [[], []]"
proof -
  have "running initialState [dispatched (handle fundedWindow initialState Connect)]"
    by (rule running_start) (simp_all add: running_init)
  then have "running initialState
      [[SET_LOADING True, SET_CONNECTED (js ''0xAAA'') (Num 1), SET_BALANCE (js ''0x64'')]]"
    by (simp only: connect_funded)
  from dispatch_first[OF dispatch_first[OF this]]
  have "running connectedState [[SET_BALANCE (js ''0x64'')]]"
    by (simp add: initialState_def connectedState_def)
  then have "running connectedState
      [dispatched (handle fundedWindow connectedState Disconnect), [SET_BALANCE (js ''0x64'')]]"
    by (rule running_start) simp
  then have "running connectedState [[SET_DISCONNECTED], [SET_BALANCE (js ''0x64'')]]"
    by (simp only: disconnect_dispatches)
  from dispatch_second[OF dispatch_first[OF this]]
  show ?thesis by (simp add: initialState_def)
qed

text \<open>The event \<open>chainChanged("0x1")\<close> of a provider that is there, before any connection.\<close>

lemma run_chain_event: "running (initialState\<lparr>chainId := Some (Num 1)\<rparr>) [[]]"
proof -
  have "running initialState
      [dispatched (handle fundedWindow initialState (ChainChanged (js ''0x1'')))]"
    by (rule running_start) (simp_all add: running_init fundedWindow_def)
  then have "running initialState [[SET_CHAIN_ID (Num 1)]]"
    by (simp only: chainChanged_initial)
  from dispatch_first[OF this] show ?thesis by simp
qed

section \<open>Disconnection\<close>

text \<open>
  Claim C6. Whatever the snapshot, the provider event \<open>accountsChanged\<close> with an empty
  account list leaves the same snapshot as the command \<open>disconnect\<close> run from that
  snapshot (in any window).
\<close>

theorem accountsChanged_empty_as_disconnect:
  "snapshot s (handleAccountsChanged w s []) = snapshot s (disconnectWallet w' s)"
  by (simp add: snapshot_def handleAccountsChanged_def disconnectWallet_def dispatched_append
      split: option.splits)

text \<open>
  Claim C9. \<open>disconnect\<close> is idempotent on the snapshot: run twice in a row it leaves the
  snapshot that one run leaves. This holds from every snapshot, and from the initial
  (disconnected) one the snapshot left is the initial one again.
\<close>

theorem disconnect_idempotent:
  "snapshot (snapshot s (disconnectWallet w s))
      (disconnectWallet w' (snapshot s (disconnectWallet w s)))
   = snapshot s (disconnectWallet w s)
   \<and> snapshot (snapshot initialState (disconnectWallet w initialState))
      (disconnectWallet w' (snapshot initialState (disconnectWallet w initialState)))
   = initialState"
  by (simp add: snapshot_def disconnectWallet_def dispatched_append initialState_def
      split: option.splits)

section \<open>Loading and errors\<close>

lemma reducer_loadingClean: "loadingClean s \<Longrightarrow> loadingClean (walletReducer s a)"
  by (cases a) (auto simp: loadingClean_def initialState_def)

lemma running_loadingClean: "running s pending \<Longrightarrow> loadingClean s"
proof (induction rule: running.induct)
  case running_init
  show ?case by (simp add: loadingClean_def initialState_def)
next
  case (running_start s pending w i)
  then show ?case by simp
next
  case (running_dispatch s earlier a rest later)
  then show ?case by (simp add: reducer_loadingClean)
qed

lemma connect_starts_loading: "take 1 (dispatched (fst (connectWallet w))) = [SET_LOADING True]"
  by (cases "requestAccounts w"; cases "getChainId w")
     (simp add: connectWallet_def Let_def split: sum.splits list.splits)

lemma switchNetwork_starts_loading:
  "take 1 (dispatched (fst (switchNetwork w s c))) = [SET_LOADING True]"
  by (cases "switchNetworkUtil w c") (simp add: switchNetwork_def Let_def split: sum.splits)

text \<open>
  Claim C8, as stated, fails in its second half: the command \<open>refreshBalance\<close> never
  dispatches \<open>SET_LOADING\<close>. The snapshot that \<open>connect\<close> leaves when the account is granted
  and the balance query fails is connected and shows the error
  \<open>Failed to get balance: Internal error\<close>; \<open>refreshBalance\<close> started from it, with the
  provider now answering, dispatches the balance and nothing else, so the command runs
  and succeeds while the snapshot keeps showing the earlier error.
\<close>

theorem refreshBalance_keeps_stale_error:
  "reachable erroredState
   \<and> error erroredState = Some (js ''Failed to get balance: Internal error'')
   \<and> dispatched (handle fundedWindow erroredState RefreshBalance) = [SET_BALANCE (js ''0x64'')]
   \<and> reachable (snapshot erroredState (handle fundedWindow erroredState RefreshBalance))
   \<and> balance (snapshot erroredState (handle fundedWindow erroredState RefreshBalance))
        = Some (js ''0x64'')
   \<and> error (snapshot erroredState (handle fundedWindow erroredState RefreshBalance))
        = Some (js ''Failed to get balance: Internal error'')"
proof -
  have a: "running erroredState ([] # [])" by (rule run_errored)
  have "running erroredState [dispatched (handle fundedWindow erroredState RefreshBalance), []]"
    by (rule running_start) (simp_all add: run_errored)
  then have "running erroredState [[SET_BALANCE (js ''0x64'')], []]"
    by (simp only: refresh_errored)
  from dispatch_first[OF this]
  have b: "running (erroredState\<lparr>balance := Some (js ''0x64'')\<rparr>) [[], []]" by simp
  from reachable_running[OF a] reachable_running[OF b] show ?thesis
    unfolding snapshot_def refresh_errored
    by (simp add: erroredState_def connectedState_def)
qed

text \<open>
  Claim C8, amended. In every run of commands and provider events from the initial
  snapshot, with the handlers interleaved at their requests, every snapshot the reducer
  produces with \<open>isLoading\<close> set has no error: the action that sets the loading flag clears
  the error, and every action that sets an error clears the loading flag. The commands
  \<open>connect\<close> and \<open>switchNetwork\<close> dispatch \<open>SET_LOADING(true)\<close> first, which from any
  snapshot gives a loading snapshot without error, and \<open>disconnect\<close> leaves a snapshot
  without error. (\<open>refreshBalance\<close> clears no error.)
\<close>

theorem loading_has_no_error:
  assumes "reachable s" and "isLoading s"
  shows "error s = None
     \<and> take 1 (dispatched (fst (connectWallet w))) = [SET_LOADING True]
     \<and> take 1 (dispatched (fst (switchNetwork w s' c))) = [SET_LOADING True]
     \<and> isLoading (walletReducer s' (SET_LOADING True))
     \<and> error (walletReducer s' (SET_LOADING True)) = None
     \<and> error (snapshot s' (disconnectWallet w s')) = None"
proof -
  from assms(1) have "loadingClean s"
    by (cases rule: reachable.cases) (simp add: running_loadingClean)
  with assms(2) have "error s = None" by (simp add: loadingClean_def)
  moreover have "error (snapshot s' (disconnectWallet w s')) = None"
    by (simp add: snapshot_def disconnectWallet_def initialState_def split: option.splits)
  ultimately show ?thesis
    using connect_starts_loading[of w] switchNetwork_starts_loading[of w s' c] by simp
qed

text \<open>
  The theorem at the snapshot in which a second \<open>connect\<close>, started on the snapshot that
  shows the balance error, has dispatched its first action.
\<close>

theorem loading_has_no_error_witness:
  "reachable (walletReducer erroredState (SET_LOADING True))
   \<and> error erroredState = Some (js ''Failed to get balance: Internal error'')
   \<and> isLoading (walletReducer erroredState (SET_LOADING True))
   \<and> error (walletReducer erroredState (SET_LOADING True)) = None
   \<and> take 1 (dispatched (fst (connectWallet bareWindow))) = [SET_LOADING True]
   \<and> take 1 (dispatched (fst (switchNetwork bareWindow erroredState (Num 56))))
        = [SET_LOADING True]
   \<and> error (snapshot erroredState (disconnectWallet bareWindow erroredState)) = None"
proof -
  have "running erroredState [dispatched (handle bareWindow erroredState Connect), []]"
    by (rule running_start) (simp_all add: run_errored)
  moreover have "dispatched (handle bareWindow erroredState Connect)
      = [SET_LOADING True, SET_ERROR (Some (js ''No accounts found''))]"
    by (simp add: connectWallet_def requestAccounts_def connectCatch_def newError_def
        bareWindow_def bareProvider_def barePeer_def Let_def str_includes_refl)
  ultimately have "running erroredState
      [[SET_LOADING True, SET_ERROR (Some (js ''No accounts found''))], []]"
    by simp
  from reachable_running[OF dispatch_first[OF this]]
  have r: "reachable (walletReducer erroredState (SET_LOADING True))" .
  have l: "isLoading (walletReducer erroredState (SET_LOADING True))" by simp
  from r l loading_has_no_error[OF r l, of bareWindow erroredState "Num 56"] show ?thesis
    by (simp add: erroredState_def)
qed

section \<open>Balance refresh\<close>

text \<open>
  Claim C7. When the balance query of \<open>refreshBalance\<close> is rejected (for the account
  passed or, without one, the account of the snapshot), the snapshot left has the error
  \<open>Failed to get balance: \<close> followed by the message of the rejection, and
  \<open>isConnected\<close>, \<open>account\<close> and \<open>chainId\<close> are as before. This holds for every snapshot, so
  for every connected one.
\<close>

theorem refreshBalance_failure_keeps_connection:
  assumes "(if truthyString acc then acc else account s) = Some t" and "t \<noteq> []"
    and "snd (getBalance w t) = Inl e"
  shows "error (snapshot s (refreshBalance w s acc))
           = Some (js ''Failed to get balance: '' @ message e)
     \<and> isConnected (snapshot s (refreshBalance w s acc)) = isConnected s
     \<and> account (snapshot s (refreshBalance w s acc)) = account s
     \<and> chainId (snapshot s (refreshBalance w s acc)) = chainId s"
  using assms by (simp add: snapshot_def dispatched_refreshBalance)

theorem refreshBalance_failure_keeps_connection_witness:
  "(if truthyString None then None else account connectedState) = Some (js ''0xAAA'')
   \<and> js ''0xAAA'' \<noteq> []
   \<and> snd (getBalance bareWindow (js ''0xAAA'')) = Inl internalError
   \<and> isConnected connectedState
   \<and> error (snapshot connectedState (refreshBalance bareWindow connectedState None))
        = Some (js ''Failed to get balance: Internal error'')
   \<and> isConnected (snapshot connectedState (refreshBalance bareWindow connectedState None))
   \<and> account (snapshot connectedState (refreshBalance bareWindow connectedState None))
        = Some (js ''0xAAA'')
   \<and> chainId (snapshot connectedState (refreshBalance bareWindow connectedState None))
        = Some (Num 1)"
proof -
  have a: "(if truthyString None then None else account connectedState) = Some (js ''0xAAA'')"
    by (simp add: truthyString_def connectedState_def)
  have b: "js ''0xAAA'' \<noteq> []" by (simp add: js_def)
  have c: "snd (getBalance bareWindow (js ''0xAAA'')) = Inl internalError"
    by (simp add: getBalance_def sample_defs)
  from a b c refreshBalance_failure_keeps_connection[OF a b c] show ?thesis
    by (simp add: connectedState_def internalError_def js_def)
qed

section \<open>Switching to a network the registry does not know\<close>

text \<open>
  Claim C3. For a chain id with no descriptor in the registry and a provider that the
  locator finds, \<open>switchNetwork\<close> of the utilities fails with the error
  \<open>Unsupported network: <id>\<close> before sending anything, the command of the context fails
  with the same error, and no request at all (so no add-network request) reaches the
  provider.
\<close>

theorem switchNetwork_unsupported:
  assumes "getNetworkById cid = None" and "getTrustWalletProvider w = Some p"
  shows "switchNetworkUtil w cid
           = ([], Inl (newError (js ''Unsupported network: '' @ numberToString cid)))
     \<and> snd (switchNetwork w s cid)
           = Inl (newError (js ''Unsupported network: '' @ numberToString cid))
     \<and> requested (fst (switchNetwork w s cid)) = []"
  using assms by (simp add: switchNetworkUtil_def switchNetwork_def)

theorem switchNetwork_unsupported_witness:
  "getNetworkById (Num 999999) = None
   \<and> getTrustWalletProvider bareWindow = Some bareProvider
   \<and> switchReply barePeer (js ''0xf423f'') = Some (Inl unknownChain)
   \<and> switchNetworkUtil bareWindow (Num 999999)
        = ([], Inl (newError (js ''Unsupported network: 999999'')))
   \<and> snd (switchNetwork bareWindow connectedState (Num 999999))
        = Inl (newError (js ''Unsupported network: 999999''))
   \<and> requested (fst (switchNetwork bareWindow connectedState (Num 999999))) = []"
proof -
  have a: "getNetworkById (Num 999999) = None"
    by (simp add: SUPPORTED_NETWORKS_def)
  have b: "getTrustWalletProvider bareWindow = Some bareProvider"
    by (simp add: bareWindow_def bareProvider_def)
  from a b switchNetwork_unsupported[OF a b, of connectedState] show ?thesis
    by (simp add: js_def barePeer_def intToString_def digits10.simps)
qed

section \<open>The disconnected snapshot\<close>

lemma reducer_anonymous: "anonymous s \<Longrightarrow> anonymous (walletReducer s a)"
  by (cases a) (auto simp: anonymous_def initialState_def)

lemma running_anonymous: "running s pending \<Longrightarrow> anonymous s"
proof (induction rule: running.induct)
  case running_init
  show ?case by (simp add: anonymous_def initialState_def)
next
  case (running_start s pending w i)
  then show ?case by simp
next
  case (running_dispatch s earlier a rest later)
  then show ?case by (simp add: reducer_anonymous)
qed

text \<open>
  Claim C1, as stated, fails for the chain id and for the balance. \<open>handleChainChanged\<close>
  dispatches \<open>SET_CHAIN_ID\<close> whether or not the wallet is connected, so the event
  \<open>chainChanged("0x1")\<close> of a provider that is there leaves the initial snapshot not
  connected with chain id 1. And \<open>connect\<close> waits for the balance after it has dispatched
  \<open>SET_CONNECTED\<close>: when \<open>disconnect\<close> runs while that query is open, the answer reaches the
  reducer after \<open>SET_DISCONNECTED\<close>, and the snapshot is not connected and has a balance.
\<close>

theorem disconnected_with_chainId_and_balance:
  "deliverable fundedWindow (ChainChanged (js ''0x1''))
   \<and> dispatched (handle fundedWindow initialState (ChainChanged (js ''0x1'')))
        = [SET_CHAIN_ID (Num 1)]
   \<and> reachable (initialState\<lparr>chainId := Some (Num 1)\<rparr>)
   \<and> \<not> isConnected (initialState\<lparr>chainId := Some (Num 1)\<rparr>)
   \<and> chainId (initialState\<lparr>chainId := Some (Num 1)\<rparr>) = Some (Num 1)
   \<and> dispatched (handle fundedWindow initialState Connect)
        = [SET_LOADING True, SET_CONNECTED (js ''0xAAA'') (Num 1), SET_BALANCE (js ''0x64'')]
   \<and> foldl walletReducer initialState [SET_LOADING True, SET_CONNECTED (js ''0xAAA'') (Num 1)]
        = connectedState
   \<and> dispatched (handle fundedWindow connectedState Disconnect) = [SET_DISCONNECTED]
   \<and> foldl walletReducer connectedState [SET_DISCONNECTED, SET_BALANCE (js ''0x64'')]
        = initialState\<lparr>balance := Some (js ''0x64'')\<rparr>
   \<and> reachable (initialState\<lparr>balance := Some (js ''0x64'')\<rparr>)
   \<and> \<not> isConnected (initialState\<lparr>balance := Some (js ''0x64'')\<rparr>)
   \<and> balance (initialState\<lparr>balance := Some (js ''0x64'')\<rparr>) = Some (js ''0x64'')"
proof -
  have a: "deliverable fundedWindow (ChainChanged (js ''0x1''))" by (simp add: fundedWindow_def)
  have b: "\<not> isConnected (initialState\<lparr>chainId := Some (Num 1)\<rparr>)"
    by (simp add: initialState_def)
  have c: "chainId (initialState\<lparr>chainId := Some (Num 1)\<rparr>) = Some (Num 1)" by simp
  have d: "foldl walletReducer initialState
      [SET_LOADING True, SET_CONNECTED (js ''0xAAA'') (Num 1)] = connectedState"
    by (simp add: initialState_def connectedState_def)
  have e: "foldl walletReducer connectedState [SET_DISCONNECTED, SET_BALANCE (js ''0x64'')]
      = initialState\<lparr>balance := Some (js ''0x64'')\<rparr>"
    by (simp add: initialState_def)
  have f: "\<not> isConnected (initialState\<lparr>balance := Some (js ''0x64'')\<rparr>)"
    by (simp add: initialState_def)
  have g: "balance (initialState\<lparr>balance := Some (js ''0x64'')\<rparr>) = Some (js ''0x64'')"
    by simp
  show ?thesis
    by (intro conjI a b c d e f g chainChanged_initial connect_funded disconnect_dispatches
        reachable_running[OF run_chain_event] reachable_running[OF run_late_balance])
qed

text \<open>
  Claim C1, amended. In every run of commands and provider events from the initial
  snapshot, with the handlers interleaved at their requests, every snapshot the reducer
  produces that is not connected has no account; and the snapshot that \<open>disconnect\<close>
  leaves is the initial one, with no account, no chain id and no balance. (Chain id and
  balance can be set again while not connected: the chain id by the provider's chain
  events and by network switches, the balance by the answer to a query that was open
  when the wallet was disconnected.)
\<close>

theorem disconnected_has_no_account:
  assumes "reachable s" and "\<not> isConnected s"
  shows "account s = None \<and> snapshot s' (disconnectWallet w s') = initialState"
proof -
  from assms(1) have "anonymous s"
    by (cases rule: reachable.cases) (simp add: running_anonymous)
  with assms(2) have "account s = None" by (simp add: anonymous_def)
  moreover have "snapshot s' (disconnectWallet w s') = initialState"
    by (simp add: snapshot_def disconnectWallet_def initialState_def split: option.splits)
  ultimately show ?thesis by simp
qed

theorem disconnected_has_no_account_witness:
  "reachable (initialState\<lparr>balance := Some (js ''0x64'')\<rparr>)
   \<and> \<not> isConnected (initialState\<lparr>balance := Some (js ''0x64'')\<rparr>)
   \<and> account (initialState\<lparr>balance := Some (js ''0x64'')\<rparr>) = None
   \<and> snapshot connectedState (disconnectWallet fundedWindow connectedState) = initialState"
proof -
  have r: "reachable (initialState\<lparr>balance := Some (js ''0x64'')\<rparr>)"
    by (rule reachable_running) (rule run_late_balance)
  have d: "\<not> isConnected (initialState\<lparr>balance := Some (js ''0x64'')\<rparr>)"
    by (simp add: initialState_def)
  from r d disconnected_has_no_account[OF r d, of connectedState fundedWindow] show ?thesis
    by simp
qed


section \<open>Base64 decodes what it encoded\<close>

lemma sextets_lt64: "\<forall>b\<in>set bs. b < 256 \<Longrightarrow> \<forall>i\<in>set (sextets bs). i < 64"
  by (induction bs rule: sextets.induct) auto

lemma octets_sextets: "\<forall>b\<in>set bs. b < 256 \<Longrightarrow> octets (sextets bs) = bs"
  by (induction bs rule: sextets.induct) auto

lemma b64code_range: "b64code i < 128 \<and> b64code i \<noteq> 61 \<and> b64code i \<notin> {9, 10, 12, 13, 32}"
  by (auto simp: b64code_def)

lemma b64value_b64code: "i < 64 \<Longrightarrow> b64value (b64code i) = Some i"
  by (auto simp: b64value_def b64code_def)

lemma unat_b64char: "unat (b64char i) = b64code i"
  using b64code_range[of i] by (simp add: b64char_def unat_of_nat)

lemma b64index_b64char: "i < 64 \<Longrightarrow> b64index (b64char i) = Some i"
  by (simp add: b64index_def unat_b64char b64value_b64code)

lemma b64char_plain: "\<not> asciiWhitespace (b64char i)" "b64char i \<noteq> 61"
  using b64code_range[of i] unat_b64char[of i]
  by (auto simp: asciiWhitespace_def)

lemma those_b64: "\<forall>i\<in>set is. i < 64 \<Longrightarrow> those (map b64index (map b64char is)) = Some is"
  by (induction "is") (simp_all add: b64index_b64char)

lemma stripPadding_body:
  assumes "xs = [] \<or> last xs \<noteq> 61" and "k \<le> 2"
  shows "stripPadding (xs @ replicate k 61) = xs"
proof -
  from assms(2) consider "k = 0" | "k = 1" | "k = 2" by linarith
  then show ?thesis
  proof cases
    case 1
    with assms(1) show ?thesis
      by (cases xs rule: rev_cases) (auto simp: stripPadding_def split: list.splits)
  next
    case 2
    with assms(1) show ?thesis
      by (cases xs rule: rev_cases) (auto simp: stripPadding_def split: list.splits)
  next
    case 3
    with assms(1) show ?thesis
      by (cases xs rule: rev_cases) (auto simp: stripPadding_def numeral_2_eq_2 split: list.splits)
  qed
qed


lemma filter_plain: "filter (\<lambda>c. \<not> asciiWhitespace c) (map b64char is @ replicate k 61) = map b64char is @ replicate k 61"
proof -
  have "\<not> asciiWhitespace 61" by (simp add: asciiWhitespace_def)
  then show ?thesis by (intro filter_True) (auto simp: b64char_plain)
qed

lemma mod3_step: "Suc (Suc (Suc n)) mod 3 = n mod 3"
  by presburger

lemma mod4_step: "Suc (Suc (Suc (Suc n))) mod 4 = n mod 4"
  by presburger

lemma padded_length: "(length (sextets bs) + (3 - length bs mod 3) mod 3) mod 4 = 0"
  by (induction bs rule: sextets.induct) (simp_all add: mod3_step mod4_step)

lemma body_length: "length (sextets bs) mod 4 \<noteq> Suc 0"
  by (induction bs rule: sextets.induct) (simp_all add: mod4_step)

lemma latin1_unat: "latin1 s \<Longrightarrow> \<forall>b\<in>set (map unat s). b < 256"
  by (auto simp: latin1_def list_all_iff word_le_nat_alt)

lemma atob_btoa:
  assumes "latin1 s"
  shows "btoa s = Some (map b64char (sextets (map unat s)) @ padding (length s))"
    and "atob (map b64char (sextets (map unat s)) @ padding (length s)) = Some s"
proof -
  let ?bs = "map unat s"
  let ?body = "map b64char (sextets ?bs)"
  let ?k = "(3 - length s mod 3) mod 3"
  show "btoa s = Some (?body @ padding (length s))"
    using assms by (simp add: btoa_def)
  have bytes: "\<forall>b\<in>set ?bs. b < 256" using assms by (rule latin1_unat)
  have len: "length (?body @ replicate ?k 61) mod 4 = 0"
    using padded_length[of ?bs] by simp
  have last: "?body = [] \<or> last ?body \<noteq> 61"
    by (cases "sextets ?bs" rule: rev_cases) (simp_all add: b64char_plain)
  have strip: "stripPadding (?body @ replicate ?k 61) = ?body"
    using last by (rule stripPadding_body) simp
  have blen: "length ?body mod 4 \<noteq> 1"
    using body_length[of ?bs] by simp
  have idx: "those (map b64index ?body) = Some (sextets ?bs)"
    using bytes by (intro those_b64 sextets_lt64)
  have restored: "map of_nat (octets (sextets ?bs)) = s"
    using bytes by (simp add: octets_sextets comp_def)
  show "atob (?body @ padding (length s)) = Some s"
    unfolding atob_def padding_def filter_plain Let_def
    using len strip blen idx restored by simp
qed

lemma xorFrom_involution: "xorFrom key i (xorFrom key i data) = data"
  by (induction data arbitrary: i) (simp_all add: xor.assoc)

lemma keyUnit_latin1: "latin1 key \<Longrightarrow> keyUnit key i \<le> 255"
  by (auto simp: keyUnit_def latin1_def list_all_iff)

lemma xor_latin1: "(a::16 word) \<le> 255 \<Longrightarrow> b \<le> 255 \<Longrightarrow> a XOR b \<le> 255"
proof -
  assume a: "a \<le> 255" and b: "b \<le> 255"
  have "take_bit 8 (unat a) = unat a" "take_bit 8 (unat b) = unat b"
    using a b by (simp_all add: take_bit_nat_eq_self_iff word_le_nat_alt)
  then have "unat a XOR unat b = take_bit 8 (unat a XOR unat b)"
    by simp
  also have "\<dots> < 2 ^ 8"
    by (rule take_bit_nat_less_exp)
  finally have "unat (a XOR b) < 256" by (simp add: unsigned_xor_eq)
  then show ?thesis by (simp add: word_le_nat_alt)
qed

lemma xorFrom_latin1: "latin1 data \<Longrightarrow> latin1 key \<Longrightarrow> latin1 (xorFrom key i data)"
  by (induction data arbitrary: i) (simp_all add: latin1_def xor_latin1 keyUnit_latin1[unfolded latin1_def])

section \<open>The obfuscation layer\<close>

text \<open>
  Claim C10, as stated, fails: the key may be non-empty and Latin-1 and still \<open>encrypt\<close>
  throws when the data holds a code unit above 255, because \<open>btoa\<close> rejects the combined
  string. With the one code unit 256 as data and the key \<open>"k"\<close> there is no result to decrypt.
\<close>

theorem roundTrip_fails_beyond_latin1:
  "[107] \<noteq> ([] :: jsstring) \<and> latin1 [107] \<and> encrypt [256] [107] = None
   \<and> roundTrip [256] [107] \<noteq> Some [256]"
  by (simp add: latin1_def roundTrip_def encrypt_def btoa_def keyUnit_def)

text \<open>
  Claim C10, amended. For every string \<open>data\<close> and every key whose code units are all at
  most 255, \<open>decrypt(encrypt(data, key), key)\<close> is \<open>data\<close>.
\<close>

theorem roundTrip_latin1:
  assumes "latin1 data" and "latin1 key"
  shows "roundTrip data key = Some data"
proof -
  have l: "latin1 (xorFrom key 0 data)" using assms by (rule xorFrom_latin1)
  show ?thesis
    unfolding roundTrip_def encrypt_def decrypt_def
    by (simp add: atob_btoa[OF l] xorFrom_involution)
qed

theorem roundTrip_latin1_witness:
  "latin1 [123, 233, 32, 125] \<and> latin1 (js ''trust_wallet_Mozilla/5.0'')
   \<and> js ''trust_wallet_Mozilla/5.0'' \<noteq> []
   \<and> roundTrip [123, 233, 32, 125] (js ''trust_wallet_Mozilla/5.0'') = Some [123, 233, 32, 125]"
proof -
  have a: "latin1 [123, 233, 32, 125]" by (simp add: latin1_def)
  have b: "latin1 (js ''trust_wallet_Mozilla/5.0'')" by (simp add: latin1_def js_def)
  have c: "js ''trust_wallet_Mozilla/5.0'' \<noteq> []" by (simp add: js_def)
  from a b c roundTrip_latin1[OF a b] show ?thesis by simp
qed

section \<open>Writing and reading back\<close>

lemma encrypt_decrypt: "encrypt d k = Some e \<Longrightarrow> decrypt e k = Some d"
proof -
  assume e: "encrypt d k = Some e"
  then have l: "latin1 (xorFrom k 0 d)"
    by (auto simp: encrypt_def btoa_def split: if_splits)
  from e atob_btoa(1)[OF l] have "e = map b64char (sextets (map unat (xorFrom k 0 d))) @ padding (length (xorFrom k 0 d))"
    by (simp add: encrypt_def)
  with atob_btoa(2)[OF l] show ?thesis
    by (simp add: decrypt_def xorFrom_involution)
qed

lemma sextets_empty: "sextets bs = [] \<longleftrightarrow> bs = []"
  by (cases bs rule: sextets.cases) simp_all

lemma encrypt_latin1:
  assumes "latin1 c" and "latin1 k" and "c \<noteq> []"
  shows "\<exists>e. encrypt c k = Some e \<and> e \<noteq> []"
proof -
  have l: "latin1 (xorFrom k 0 c)" using assms(1,2) by (rule xorFrom_latin1)
  have "xorFrom k 0 c \<noteq> []" using assms(3) by (cases c) simp_all
  then have "sextets (map unat (xorFrom k 0 c)) \<noteq> []" by (simp add: sextets_empty)
  with atob_btoa(1)[OF l] show ?thesis by (simp add: encrypt_def)
qed

lemma storableI:
  assumes "compress (stringify h (storageItem v now)) = c" and "c \<noteq> []" and "latin1 c"
    and "latin1 (getEncryptionKey h)" and "\<And>e. accepts h (fullKey logKey) e"
    and "parse h c = Some (storageItem v now)"
  shows "storable h v now"
proof -
  from encrypt_latin1[OF assms(3,4,2)] obtain e
    where "encrypt c (getEncryptionKey h) = Some e" and "e \<noteq> []" by blast
  with assms(1,5,6) show ?thesis by (simp add: storable_def)
qed

lemma version_of_storageItem: "getProp (storageItem v now) (js ''version'') = Some (JStr version)"
  by (simp add: storageItem_def js_def)

lemma data_of_storageItem: "getProp (storageItem v now) (js ''data'') = Some v"
  by (simp add: storageItem_def js_def)

lemma setItem_getItem:
  assumes "storable h v now"
  shows "fst (setItem h ls logKey v now) = True
       \<and> getItem h (snd (setItem h ls logKey v now)) logKey = (v, snd (setItem h ls logKey v now))"
proof -
  let ?c = "compress (stringify h (storageItem v now))"
  from assms obtain e where e: "encrypt ?c (getEncryptionKey h) = Some e" and ne: "e \<noteq> []"
    and acc: "accepts h (fullKey logKey) e" and p: "parse h ?c = Some (storageItem v now)"
    by (auto simp: storable_def Let_def split: option.splits)
  have s: "setItem h ls logKey v now = (True, ls(fullKey logKey \<mapsto> e))"
    using e acc by (simp add: setItem_def)
  have d: "decrypt e (getEncryptionKey h) = Some ?c" using e by (rule encrypt_decrypt)
  show ?thesis
    unfolding s using ne d p
    by (simp add: getItem_def decompress_def version_of_storageItem data_of_storageItem)
qed

lemma addLogEntry_storable:
  assumes "fst (getLogs h ls) = JArr old"
    and "storable h (JArr (truncateLogs (newEntry entry t # old))) (writeNow t)"
  shows "fst (addLogEntry h ls entry t) = Inr True
       \<and> fst (getLogs h (snd (addLogEntry h ls entry t))) = JArr (truncateLogs (newEntry entry t # old))"
proof -
  obtain ls' where g: "getLogs h ls = (JArr old, ls')"
    using assms(1) by (cases "getLogs h ls") simp
  let ?v = "JArr (truncateLogs (newEntry entry t # old))"
  from setItem_getItem[OF assms(2), of ls'] have
    a: "fst (setItem h ls' logKey ?v (writeNow t)) = True" and
    b: "getItem h (snd (setItem h ls' logKey ?v (writeNow t))) logKey = (?v, snd (setItem h ls' logKey ?v (writeNow t)))"
    by simp_all
  have r: "addLogEntry h ls entry t = (Inr True, snd (setItem h ls' logKey ?v (writeNow t)))"
    using g a by (cases "setItem h ls' logKey ?v (writeNow t)") (simp add: addLogEntry_def)
  show ?thesis unfolding r using b by (simp add: getLogs_def)
qed

lemma appendAll_storable:
  "fst (getLogs h ls) = JArr old \<Longrightarrow> allStorable h old ets
    \<Longrightarrow> fst (getLogs h (appendAll h ls ets)) = JArr (journalAfter old ets)"
proof (induction ets arbitrary: ls old)
  case Nil
  then show ?case by simp
next
  case (Cons et ets)
  obtain entry t where et: "et = (entry, t)" by (cases et)
  from Cons.prems(2) have s: "storable h (JArr (truncateLogs (newEntry entry t # old))) (writeNow t)"
    and rest: "allStorable h (truncateLogs (newEntry entry t # old)) ets"
    by (simp_all add: et)
  from addLogEntry_storable[OF Cons.prems(1) s]
  have "fst (getLogs h (snd (addLogEntry h ls entry t))) = JArr (truncateLogs (newEntry entry t # old))"
    by simp
  from Cons.IH[OF this rest] show ?case by (simp add: et)
qed

lemma truncateLogs_take: "truncateLogs logs = take maxLogEntries logs"
  by (simp add: truncateLogs_def)

lemma take_append_take: "take n (xs @ take n ys) = take n (xs @ ys)"
  by (simp add: min_def)

lemma journalAfter_take:
  "length old \<le> maxLogEntries \<Longrightarrow>
   journalAfter old ets = take maxLogEntries (rev (map (\<lambda>(entry, t). newEntry entry t) ets) @ old)"
proof (induction ets arbitrary: old)
  case Nil
  then show ?case by simp
next
  case (Cons et ets)
  obtain entry t where et: "et = (entry, t)" by (cases et)
  have "length (truncateLogs (newEntry entry t # old)) \<le> maxLogEntries"
    by (simp add: truncateLogs_take)
  from Cons.IH[OF this] show ?case
    by (simp add: et truncateLogs_take take_append_take)
qed

section \<open>Entry ids\<close>

lemma digits10_nonempty: "digits10 n \<noteq> []"
  by (subst digits10.simps) simp

lemma unat_digit: "d < 10 \<Longrightarrow> unat (of_nat (48 + d) :: 16 word) = 48 + d"
  by (subst unat_of_nat) simp

lemma unat_digit': "d < 10 \<Longrightarrow> unat (48 + word_of_nat d :: 16 word) = 48 + d"
  using unat_digit[of d] by simp

lemma digits10_small: "n < 10 \<Longrightarrow> digits10 n = [of_nat (48 + n)]"
  by (subst digits10.simps) simp

lemma digits10_large:
  "\<not> n < 10 \<Longrightarrow> digits10 n = digits10 (n div 10) @ [of_nat (48 + n mod 10)]"
  by (subst digits10.simps) simp

lemma digits10_digits: "c \<in> set (digits10 n) \<Longrightarrow> 48 \<le> unat c \<and> unat c \<le> 57"
proof (induction n arbitrary: c rule: digits10.induct)
  case (1 n)
  show ?case
  proof (cases "n < 10")
    case True
    with "1.prems" show ?thesis by (simp add: digits10_small unat_digit')
  next
    case False
    with "1.prems" have "c \<in> set (digits10 (n div 10)) \<or> c = of_nat (48 + n mod 10)"
      by (auto simp: digits10_large)
    then show ?thesis
    proof
      assume "c \<in> set (digits10 (n div 10))"
      with False "1.IH" show ?thesis by blast
    next
      assume "c = of_nat (48 + n mod 10)"
      then show ?thesis using unat_digit'[of "n mod 10"] by simp
    qed
  qed
qed

lemma digitsNat_digits10: "digitsNat (digits10 n) = n"
proof (induction n rule: digits10.induct)
  case (1 n)
  show ?case
  proof (cases "n < 10")
    case True
    then show ?thesis
      by (simp add: digits10_small digitsNat_def unat_digit')
  next
    case False
    with "1.IH" have "digitsNat (digits10 (n div 10)) = n div 10" by simp
    with False show ?thesis
      using unat_digit'[of "n mod 10"]
      by (simp add: digits10_large digitsNat_def)
  qed
qed

lemma digits10_inj: "digits10 a = digits10 b \<Longrightarrow> a = b"
  by (metis digitsNat_digits10)

lemma digits10_no_minus: "45 # ds \<noteq> digits10 n"
proof
  assume "45 # ds = digits10 n"
  then have "(45 :: 16 word) \<in> set (digits10 n)" by (metis list.set_intros(1))
  from digits10_digits[OF this] show False by simp
qed

lemma intToString_inj: "intToString a = intToString b \<Longrightarrow> a = b"
proof -
  assume eq: "intToString a = intToString b"
  consider "a < 0" "b < 0" | "a < 0" "\<not> b < 0" | "\<not> a < 0" "b < 0" | "\<not> a < 0" "\<not> b < 0"
    by blast
  then show ?thesis
  proof cases
    case 1
    with eq have "digits10 (nat (- a)) = digits10 (nat (- b))" by (simp add: intToString_def js_def)
    then have "nat (- a) = nat (- b)" by (rule digits10_inj)
    with 1 show ?thesis by simp
  next
    case 2
    with eq have "45 # digits10 (nat (- a)) = digits10 (nat b)" by (simp add: intToString_def js_def)
    with digits10_no_minus show ?thesis by blast
  next
    case 3
    with eq have "45 # digits10 (nat (- b)) = digits10 (nat a)" by (simp add: intToString_def js_def)
    with digits10_no_minus show ?thesis by blast
  next
    case 4
    with eq have "digits10 (nat a) = digits10 (nat b)" by (simp add: intToString_def)
    then have "nat a = nat b" by (rule digits10_inj)
    with 4 show ?thesis by simp
  qed
qed

lemma intToString_no_underscore: "95 \<notin> set (intToString n)"
proof
  assume "95 \<in> set (intToString n)"
  then have "(95 :: 16 word) \<in> set (digits10 (nat (- n))) \<or> (95 :: 16 word) \<in> set (digits10 (nat n))"
    by (auto simp: intToString_def js_def split: if_splits)
  then show False using digits10_digits[of 95] by auto
qed

lemma split_at_separator:
  "x \<notin> set xs \<Longrightarrow> x \<notin> set ys \<Longrightarrow> xs @ x # s = ys @ x # s' \<Longrightarrow> xs = ys \<and> s = s'"
proof (induction xs arbitrary: ys)
  case Nil
  then show ?case by (cases ys) auto
next
  case (Cons a xs)
  then show ?case by (cases ys) auto
qed

lemma entryId_eq_iff:
  "entryId t = entryId t' \<longleftrightarrow>
     idNow t = idNow t' \<and> take 9 (drop 2 (random36 t)) = take 9 (drop 2 (random36 t'))"
proof
  assume "entryId t = entryId t'"
  then have "intToString (idNow t) @ 95 # take 9 (drop 2 (random36 t))
      = intToString (idNow t') @ 95 # take 9 (drop 2 (random36 t'))"
    by (simp add: entryId_def js_def)
  from split_at_separator[OF intToString_no_underscore intToString_no_underscore this]
  have "intToString (idNow t) = intToString (idNow t')"
    and "take 9 (drop 2 (random36 t)) = take 9 (drop 2 (random36 t'))"
    by blast+
  with intToString_inj[of "idNow t" "idNow t'"]
  show "idNow t = idNow t' \<and> take 9 (drop 2 (random36 t)) = take 9 (drop 2 (random36 t'))"
    by blast
next
  assume "idNow t = idNow t' \<and> take 9 (drop 2 (random36 t)) = take 9 (drop 2 (random36 t'))"
  then show "entryId t = entryId t'" by (simp add: entryId_def)
qed

lemma id_of_newEntry: "getProp (newEntry entry t) (js ''id'') = Some (JStr (entryId t))"
  by (simp add: newEntry_def optionalProp_def js_def split: option.splits)

lemma timestamp_of_newEntry:
  "getProp (newEntry entry t) (js ''timestamp'') = Some (JNum (Num (stampNow t)))"
  by (simp add: newEntry_def optionalProp_def js_def split: option.splits)

section \<open>Reading the journal\<close>

lemma getLogs_absent: "ls (fullKey logKey) = None \<Longrightarrow> getLogs h ls = (JArr [], ls)"
  by (simp add: getLogs_def getItem_def)

lemma getLogs_undecodable:
  "ls (fullKey logKey) = Some r \<Longrightarrow> decrypt r (getEncryptionKey h) = None
    \<Longrightarrow> getLogs h ls = (JArr [], ls)"
  by (simp add: getLogs_def getItem_def)

lemma getLogs_unparsable:
  "ls (fullKey logKey) = Some r \<Longrightarrow> decrypt r (getEncryptionKey h) = Some c
    \<Longrightarrow> parse h c = None \<Longrightarrow> getLogs h ls = (JArr [], ls)"
  by (simp add: getLogs_def getItem_def decompress_def)

lemma getLogs_propertyless:
  "ls (fullKey logKey) = Some r \<Longrightarrow> decrypt r (getEncryptionKey h) = Some c
    \<Longrightarrow> parse h c = Some item \<Longrightarrow> getProp item (js ''version'') = None
    \<Longrightarrow> getLogs h ls = (JArr [], ls)"
  by (simp add: getLogs_def getItem_def decompress_def)

lemma getLogs_stale:
  "ls (fullKey logKey) = Some r \<Longrightarrow> r \<noteq> [] \<Longrightarrow> decrypt r (getEncryptionKey h) = Some c
    \<Longrightarrow> parse h c = Some item \<Longrightarrow> getProp item (js ''version'') = Some ver
    \<Longrightarrow> ver \<noteq> JStr version
    \<Longrightarrow> getLogs h ls = (JArr [], ls(fullKey logKey := None))"
  by (simp add: getLogs_def getItem_def decompress_def removeItem_def)

lemma refKey: "getEncryptionKey refHost = js ''trust_wallet_Mozilla/5.0 (X11; Li''"
  by (simp add: getEncryptionKey_def refHost_def js_def)

lemma corrupt_undecodable: "decrypt (js ''!'') (getEncryptionKey refHost) = None"
  by (simp add: decrypt_def atob_def asciiWhitespace_def js_def)

lemma broken_decodes: "decrypt (js ''Dw=='') (getEncryptionKey refHost) = Some (js ''{'')"
  unfolding refKey by code_simp

lemma broken_unparsable: "parse refHost (js ''{'') = None"
  by code_simp

lemma null_decodes: "decrypt (js ''GgcZHw=='') (getEncryptionKey refHost) = Some (js ''null'')"
  unfolding refKey by code_simp

lemma null_parses: "parse refHost (js ''null'') = Some JNull"
  by code_simp

lemma stale_decodes:
  "decrypt (js ''D1ADFgYsHg4CTl9Wb28S'') (getEncryptionKey refHost) = Some (js ''{\"version\":\"0\"}'')"
  unfolding refKey by code_simp

lemma stale_parses:
  "parse refHost (js ''{\"version\":\"0\"}'') = Some (JObj [(js ''version'', JStr (js ''0''))])"
  by code_simp

text \<open>
  Claim C2, as stated, fails: when the stored text cannot be decoded, \<open>getItem\<close> returns
  \<open>null\<close> from its \<open>catch\<close> block and removes nothing. The slot holding \<open>!\<close> reads as the
  empty journal and still holds \<open>!\<close> afterwards.
\<close>

theorem corrupt_slot_not_cleared:
  "corruptStorage (fullKey logKey) = Some (js ''!'')
   \<and> decrypt (js ''!'') (getEncryptionKey refHost) = None
   \<and> fst (getLogs refHost corruptStorage) = JArr []
   \<and> snd (getLogs refHost corruptStorage) (fullKey logKey) = Some (js ''!'')"
proof -
  have a: "corruptStorage (fullKey logKey) = Some (js ''!'')" by (simp add: corruptStorage_def)
  from a corrupt_undecodable
    getLogs_undecodable[where ls = corruptStorage and h = refHost, OF a corrupt_undecodable]
  show ?thesis by simp
qed

text \<open>
  Claim C2, amended. For a stored, non-empty journal envelope: when it fails to decode or
  to parse (or parses to a value without properties), \<open>getLogs\<close> returns the empty sequence
  and leaves the stored envelope as it is; when it parses and its version is not the
  current one, \<open>getLogs\<close> returns the empty sequence and removes the stored envelope, so
  that a raw read of the slot then finds nothing.
\<close>

theorem getLogs_unusable_envelope:
  assumes "ls (fullKey logKey) = Some r" and "r \<noteq> []"
  shows "(decrypt r (getEncryptionKey h) = None \<longrightarrow> getLogs h ls = (JArr [], ls))
     \<and> (\<forall>c. decrypt r (getEncryptionKey h) = Some c \<and> parse h c = None
            \<longrightarrow> getLogs h ls = (JArr [], ls))
     \<and> (\<forall>c item. decrypt r (getEncryptionKey h) = Some c \<and> parse h c = Some item
              \<and> getProp item (js ''version'') = None
            \<longrightarrow> getLogs h ls = (JArr [], ls))
     \<and> (\<forall>c item ver. decrypt r (getEncryptionKey h) = Some c \<and> parse h c = Some item
              \<and> getProp item (js ''version'') = Some ver \<and> ver \<noteq> JStr version
            \<longrightarrow> getLogs h ls = (JArr [], ls(fullKey logKey := None))
                \<and> snd (getLogs h ls) (fullKey logKey) = None)"
  using assms
  by (auto simp: getLogs_undecodable getLogs_unparsable getLogs_propertyless getLogs_stale)

theorem getLogs_unusable_envelope_witness:
  "corruptStorage (fullKey logKey) = Some (js ''!'') \<and> js ''!'' \<noteq> []
   \<and> decrypt (js ''!'') (getEncryptionKey refHost) = None
   \<and> getLogs refHost corruptStorage = (JArr [], corruptStorage)
   \<and> brokenStorage (fullKey logKey) = Some (js ''Dw=='') \<and> js ''Dw=='' \<noteq> []
   \<and> decrypt (js ''Dw=='') (getEncryptionKey refHost) = Some (js ''{'')
   \<and> parse refHost (js ''{'') = None
   \<and> getLogs refHost brokenStorage = (JArr [], brokenStorage)
   \<and> nullStorage (fullKey logKey) = Some (js ''GgcZHw=='') \<and> js ''GgcZHw=='' \<noteq> []
   \<and> decrypt (js ''GgcZHw=='') (getEncryptionKey refHost) = Some (js ''null'')
   \<and> parse refHost (js ''null'') = Some JNull
   \<and> getProp JNull (js ''version'') = None
   \<and> getLogs refHost nullStorage = (JArr [], nullStorage)
   \<and> staleStorage (fullKey logKey) = Some (js ''D1ADFgYsHg4CTl9Wb28S'')
   \<and> js ''D1ADFgYsHg4CTl9Wb28S'' \<noteq> []
   \<and> decrypt (js ''D1ADFgYsHg4CTl9Wb28S'') (getEncryptionKey refHost)
        = Some (js ''{\"version\":\"0\"}'')
   \<and> parse refHost (js ''{\"version\":\"0\"}'') = Some (JObj [(js ''version'', JStr (js ''0''))])
   \<and> getProp (JObj [(js ''version'', JStr (js ''0''))]) (js ''version'') = Some (JStr (js ''0''))
   \<and> JStr (js ''0'') \<noteq> JStr version
   \<and> getLogs refHost staleStorage = (JArr [], staleStorage(fullKey logKey := None))
   \<and> snd (getLogs refHost staleStorage) (fullKey logKey) = None"
proof -
  have a: "corruptStorage (fullKey logKey) = Some (js ''!'')" by (simp add: corruptStorage_def)
  have a': "js ''!'' \<noteq> []" by (simp add: js_def)
  have b: "brokenStorage (fullKey logKey) = Some (js ''Dw=='')" by (simp add: brokenStorage_def)
  have b': "js ''Dw=='' \<noteq> []" by (simp add: js_def)
  have n: "nullStorage (fullKey logKey) = Some (js ''GgcZHw=='')" by (simp add: nullStorage_def)
  have n': "js ''GgcZHw=='' \<noteq> []" by (simp add: js_def)
  have c: "staleStorage (fullKey logKey) = Some (js ''D1ADFgYsHg4CTl9Wb28S'')"
    by (simp add: staleStorage_def)
  have c': "js ''D1ADFgYsHg4CTl9Wb28S'' \<noteq> []" by (simp add: js_def)
  have p: "getProp JNull (js ''version'') = None" by simp
  have e: "getProp (JObj [(js ''version'', JStr (js ''0''))]) (js ''version'') = Some (JStr (js ''0''))"
    by simp
  have f: "JStr (js ''0'') \<noteq> JStr version" by (simp add: version_def js_def)
  from getLogs_unusable_envelope[where ls = corruptStorage and h = refHost, OF a a']
    corrupt_undecodable
  have g1: "getLogs refHost corruptStorage = (JArr [], corruptStorage)" by blast
  from getLogs_unusable_envelope[where ls = brokenStorage and h = refHost, OF b b']
    broken_decodes broken_unparsable
  have g2: "getLogs refHost brokenStorage = (JArr [], brokenStorage)" by blast
  from getLogs_unusable_envelope[where ls = nullStorage and h = refHost, OF n n']
    null_decodes null_parses p
  have g3: "getLogs refHost nullStorage = (JArr [], nullStorage)" by blast
  from getLogs_unusable_envelope[where ls = staleStorage and h = refHost, OF c c']
    stale_decodes stale_parses e f
  have g4: "getLogs refHost staleStorage = (JArr [], staleStorage(fullKey logKey := None))
     \<and> snd (getLogs refHost staleStorage) (fullKey logKey) = None" by blast
  from a a' b b' n n' c c' p e f g1 g2 g3 g4 show ?thesis
    using corrupt_undecodable broken_decodes broken_unparsable null_decodes null_parses
      stale_decodes stale_parses
    by blast
qed

section \<open>Texts that compaction leaves alone\<close>

lemma printable_no_space: "33 \<le> c \<Longrightarrow> c \<le> 126 \<Longrightarrow> \<not> isWhiteSpace c"
  by (auto simp: isWhiteSpace_def word_le_nat_alt)

lemma collapse_plain: "\<forall>c\<in>set s. \<not> isWhiteSpace c \<Longrightarrow> collapse s = s"
  by (induction s) simp_all

lemma dropWhile_plain: "\<forall>c\<in>set s. \<not> P c \<Longrightarrow> dropWhile P s = s"
  by (cases s) simp_all

lemma compress_plain: "\<forall>c\<in>set s. \<not> isWhiteSpace c \<Longrightarrow> compress s = s"
  by (simp add: compress_def trim_def collapse_plain dropWhile_plain)

lemma compress_printable: "printable s \<Longrightarrow> compress s = s"
  by (rule compress_plain) (auto simp: printable_def list_all_iff printable_no_space)

lemma latin1_printable: "printable s \<Longrightarrow> latin1 s"
  by (auto simp: printable_def latin1_def list_all_iff word_le_nat_alt)

lemma dropWhile_keeps: "c \<in> set s \<Longrightarrow> \<not> P c \<Longrightarrow> c \<in> set (dropWhile P s)"
  by (induction s) auto

lemma collapse_keeps: "c \<in> set s \<Longrightarrow> \<not> isWhiteSpace c \<Longrightarrow> c \<in> set (collapse s)"
proof (induction s rule: collapse.induct)
  case 1
  then show ?case by simp
next
  case (2 d ds)
  show ?case
  proof (cases "isWhiteSpace d")
    case True
    with "2.prems" have "c \<in> set ds" by auto
    from this "2.prems"(2) have "c \<in> set (dropWhile isWhiteSpace ds)" by (rule dropWhile_keeps)
    with True "2.IH"(1) "2.prems"(2) show ?thesis by simp
  next
    case False
    with "2.prems" "2.IH"(2) show ?thesis by auto
  qed
qed

lemma compress_keeps: "c \<in> set s \<Longrightarrow> \<not> isWhiteSpace c \<Longrightarrow> c \<in> set (compress s)"
  by (simp add: compress_def trim_def collapse_keeps dropWhile_keeps)

lemma xorFrom_beyond_latin1:
  "latin1 key \<Longrightarrow> \<not> latin1 data \<Longrightarrow> \<not> latin1 (xorFrom key i data)"
  using xorFrom_latin1[of "xorFrom key i data" key i] by (auto simp: xorFrom_involution)

lemma encrypt_beyond_latin1: "latin1 key \<Longrightarrow> \<not> latin1 data \<Longrightarrow> encrypt data key = None"
  by (simp add: encrypt_def btoa_def xorFrom_beyond_latin1)

lemma refKey_latin1: "latin1 (getEncryptionKey refHost)"
  unfolding refKey by (simp add: latin1_def js_def)

section \<open>The sample journal on the reference host\<close>

lemmas entry_defs =
  storageItem_def truncateLogs_def maxLogEntries_def newEntry_def failureEntry_def
  goodbyeEntry_def foreignEntry_def firstTicks_def laterTicks_def version_def optionalProp_def
  detailsObject_def noDetails_def entryId_def

lemmas stringify_defs =
  js_def quote_def commaJoin_def isHighSurrogate_def isLowSurrogate_def digits10.simps intToString_def

text \<open>What the reference host writes for the two sample journals, and that it reads it back.\<close>

lemma firstText:
  "JSON_stringify (storageItem (JArr (truncateLogs [newEntry failureEntry firstTicks]))
     (writeNow firstTicks)) = firstEnvelope"
  by (simp add: entry_defs stringify_defs firstEnvelope_def)

lemma firstText_printable: "printable firstEnvelope"
  by (simp add: printable_def firstEnvelope_def js_def)

lemma firstText_parses:
  "JSON_parse firstEnvelope
   = Some (storageItem (JArr (truncateLogs [newEntry failureEntry firstTicks])) (writeNow firstTicks))"
  by code_simp

lemma first_storable:
  "storable refHost (JArr (truncateLogs [newEntry failureEntry firstTicks])) (writeNow firstTicks)"
proof (rule storableI)
  show "compress (stringify refHost
          (storageItem (JArr (truncateLogs [newEntry failureEntry firstTicks])) (writeNow firstTicks)))
        = firstEnvelope"
    by (simp add: refHost_def firstText compress_printable[OF firstText_printable])
  show "firstEnvelope \<noteq> []" by (simp add: firstEnvelope_def js_def)
  show "latin1 firstEnvelope" by (rule latin1_printable) (rule firstText_printable)
  show "latin1 (getEncryptionKey refHost)" by (rule refKey_latin1)
  show "\<And>e. accepts refHost (fullKey logKey) e" by (simp add: refHost_def)
  show "parse refHost firstEnvelope
        = Some (storageItem (JArr (truncateLogs [newEntry failureEntry firstTicks])) (writeNow firstTicks))"
    by (simp add: refHost_def firstText_parses)
qed

lemma secondText:
  "JSON_stringify (storageItem
     (JArr (truncateLogs [newEntry goodbyeEntry laterTicks, newEntry failureEntry firstTicks]))
     (writeNow laterTicks)) = secondEnvelope"
  by (simp add: entry_defs stringify_defs secondEnvelope_def)

lemma secondText_printable: "printable secondEnvelope"
  by (simp add: printable_def secondEnvelope_def js_def)

lemma secondText_parses:
  "JSON_parse secondEnvelope
   = Some (storageItem
       (JArr (truncateLogs [newEntry goodbyeEntry laterTicks, newEntry failureEntry firstTicks]))
       (writeNow laterTicks))"
  by code_simp

lemma second_storable:
  "storable refHost
     (JArr (truncateLogs [newEntry goodbyeEntry laterTicks, newEntry failureEntry firstTicks]))
     (writeNow laterTicks)"
proof (rule storableI)
  show "compress (stringify refHost (storageItem
          (JArr (truncateLogs [newEntry goodbyeEntry laterTicks, newEntry failureEntry firstTicks]))
          (writeNow laterTicks))) = secondEnvelope"
    by (simp add: refHost_def secondText compress_printable[OF secondText_printable])
  show "secondEnvelope \<noteq> []" by (simp add: secondEnvelope_def js_def)
  show "latin1 secondEnvelope" by (rule latin1_printable) (rule secondText_printable)
  show "latin1 (getEncryptionKey refHost)" by (rule refKey_latin1)
  show "\<And>e. accepts refHost (fullKey logKey) e" by (simp add: refHost_def)
  show "parse refHost secondEnvelope
        = Some (storageItem
            (JArr (truncateLogs [newEntry goodbyeEntry laterTicks, newEntry failureEntry firstTicks]))
            (writeNow laterTicks))"
    by (simp add: refHost_def secondText_parses)
qed

lemma empty_journal: "fst (getLogs refHost Map.empty) = JArr []"
  by (simp add: getLogs_absent)

lemma truncate_one: "truncateLogs [x] = [x]"
  by (simp add: truncateLogs_def maxLogEntries_def)

lemma sample_allStorable:
  "allStorable refHost [] [(failureEntry, firstTicks), (goodbyeEntry, laterTicks)]"
  using first_storable second_storable by (simp add: truncate_one)

lemma foreign_not_storable:
  "encrypt (compress (stringify refHost (storageItem (JArr (truncateLogs [newEntry foreignEntry firstTicks])) (writeNow firstTicks))))
     (getEncryptionKey refHost) = None"
proof -
  let ?text = "stringify refHost (storageItem (JArr (truncateLogs [newEntry foreignEntry firstTicks])) (writeNow firstTicks))"
  have "(8217 :: 16 word) \<in> set (quoteChars [8217])"
    by (simp add: isHighSurrogate_def isLowSurrogate_def)
  then have "(8217 :: 16 word) \<in> set ?text"
    by (simp add: refHost_def entry_defs quote_def commaJoin_def)
  moreover have "\<not> isWhiteSpace (8217 :: 16 word)" by (simp add: isWhiteSpace_def)
  ultimately have "(8217 :: 16 word) \<in> set (compress ?text)" by (rule compress_keeps)
  moreover have "\<not> (8217 :: 16 word) \<le> 255" by simp
  ultimately have "\<not> latin1 (compress ?text)" unfolding latin1_def list_all_iff by blast
  with refKey_latin1 show ?thesis by (rule encrypt_beyond_latin1)
qed

section \<open>Appending\<close>

lemma take_rev_drop: "take n (rev xs) = rev (drop (length xs - n) xs)"
  by (cases "n \<le> length xs") (simp_all add: rev_drop)

text \<open>
  Claim C5, as stated, fails in two ways. An entry that holds a character above U+00FF
  cannot be encoded: \<open>addLogEntry\<close> returns \<open>false\<close> and the journal stays empty. And
  ids are not unique: two appends that read the same clock value, with random strings that
  agree on the nine characters kept, store two entries with the same id.
\<close>

theorem append_lost_and_ids_collide:
  "fst (addLogEntry refHost Map.empty foreignEntry firstTicks) = Inr False
   \<and> fst (getLogs refHost (snd (addLogEntry refHost Map.empty foreignEntry firstTicks))) = JArr []
   \<and> fst (getLogs refHost
         (appendAll refHost Map.empty [(failureEntry, firstTicks), (goodbyeEntry, laterTicks)]))
       = JArr [newEntry goodbyeEntry laterTicks, newEntry failureEntry firstTicks]
   \<and> getProp (newEntry goodbyeEntry laterTicks) (js ''id'')
       = getProp (newEntry failureEntry firstTicks) (js ''id'')
   \<and> random36 laterTicks \<noteq> random36 firstTicks"
proof -
  have g: "getLogs refHost Map.empty = (JArr [], Map.empty)" by (simp add: getLogs_absent)
  have a: "addLogEntry refHost Map.empty foreignEntry firstTicks = (Inr False, Map.empty)"
    using foreign_not_storable by (simp add: addLogEntry_def g setItem_def)
  have b: "fst (getLogs refHost
         (appendAll refHost Map.empty [(failureEntry, firstTicks), (goodbyeEntry, laterTicks)]))
       = JArr [newEntry goodbyeEntry laterTicks, newEntry failureEntry firstTicks]"
    using appendAll_storable[OF empty_journal sample_allStorable]
    by (simp add: truncateLogs_def maxLogEntries_def)
  have c: "entryId laterTicks = entryId firstTicks"
    by (simp add: entryId_eq_iff) (simp add: firstTicks_def laterTicks_def js_def)
  have d: "random36 laterTicks \<noteq> random36 firstTicks"
    by (simp add: firstTicks_def laterTicks_def js_def)
  from a b c d show ?thesis by (simp add: g id_of_newEntry)
qed

text \<open>
  Claim C5, amended. For every sequence of appends to a journal of at most 100 entries in
  which every journal on the way can be stored (encoding does not throw, the write is
  accepted, and the compacted text parses back to what was written): the journal read
  afterwards is the appended entries, newest first, followed by the old ones, cut to the
  first 100. Each entry carries the id \<open><clock>_<nine characters of the random string>\<close>
  and the clock as timestamp; two ids are equal exactly when the clock values and the
  kept characters are.
\<close>

theorem appends_keep_latest:
  assumes "fst (getLogs h ls) = JArr old" and "length old \<le> maxLogEntries"
    and "allStorable h old ets"
  shows "fst (getLogs h (appendAll h ls ets))
           = JArr (take maxLogEntries (rev (map (\<lambda>(entry, t). newEntry entry t) ets) @ old))
     \<and> getProp (newEntry entry t) (js ''id'') = Some (JStr (entryId t))
     \<and> getProp (newEntry entry t) (js ''timestamp'') = Some (JNum (Num (stampNow t)))
     \<and> (entryId t = entryId t' \<longleftrightarrow>
          idNow t = idNow t' \<and> take 9 (drop 2 (random36 t)) = take 9 (drop 2 (random36 t')))"
  using appendAll_storable[OF assms(1,3)] journalAfter_take[OF assms(2), of ets]
    entryId_eq_iff[of t t']
  by (simp add: id_of_newEntry timestamp_of_newEntry)

theorem appends_keep_latest_witness:
  "fst (getLogs refHost Map.empty) = JArr [] \<and> length ([] :: jsvalue list) \<le> maxLogEntries
   \<and> allStorable refHost [] [(failureEntry, firstTicks), (goodbyeEntry, laterTicks)]
   \<and> fst (getLogs refHost
          (appendAll refHost Map.empty [(failureEntry, firstTicks), (goodbyeEntry, laterTicks)]))
        = JArr [newEntry goodbyeEntry laterTicks, newEntry failureEntry firstTicks]
   \<and> getProp (newEntry goodbyeEntry laterTicks) (js ''id'') = Some (JStr (js ''17_4fzyo82mv''))
   \<and> getProp (newEntry goodbyeEntry laterTicks) (js ''timestamp'') = Some (JNum (Num 18))"
proof -
  have l: "length ([] :: jsvalue list) \<le> maxLogEntries" by simp
  have i: "entryId laterTicks = js ''17_4fzyo82mv''"
    by (simp add: entryId_def laterTicks_def js_def digits10.simps intToString_def)
  have s: "stampNow laterTicks = 18" by (simp add: laterTicks_def)
  from appends_keep_latest[OF empty_journal l sample_allStorable, of goodbyeEntry laterTicks laterTicks]
    empty_journal sample_allStorable
  show ?thesis by (simp add: maxLogEntries_def i s)
qed

text \<open>
  In particular, 150 appends to the empty journal leave the 100 most recent entries,
  newest first.
\<close>

lemma appends_150:
  assumes "fst (getLogs h ls) = JArr []" and "allStorable h [] ets" and "length ets = 150"
  shows "fst (getLogs h (appendAll h ls ets))
           = JArr (rev (map (\<lambda>(entry, t). newEntry entry t) (drop 50 ets)))"
  using appendAll_storable[OF assms(1,2)] journalAfter_take[of "[]" ets] assms(3)
  by (simp add: maxLogEntries_def take_rev_drop drop_map)
section \<open>Connecting without accounts\<close>

lemma journalEffects_single:
  "journaled es = [entry] \<Longrightarrow> journalEffects h ls es (t # ts) = snd (addLogEntry h ls entry t)"
  by (simp add: journalEffects_def)

lemma connect_without_accounts_effects:
  assumes "w = Window (Some p)" and "isTrust p" and "accountsReply (replies p) = Inr []"
  shows "snd (connectWallet w) = Inl (newError (js ''No accounts found''))"
    and "dispatched (fst (connectWallet w))
          = [SET_LOADING True, SET_ERROR (Some (js ''No accounts found''))]"
    and "journaled (fst (connectWallet w)) = [noAccountsEntry]"
  using assms
  by (simp_all add: connectWallet_def requestAccounts_def connectCatch_def newError_def
      noAccountsEntry_def str_includes_refl)

lemma refused_append:
  assumes "ls (fullKey logKey) = None" and "\<And>e. \<not> accepts h (fullKey logKey) e"
  shows "addLogEntry h ls entry t = (Inr False, ls)"
  using assms by (simp add: addLogEntry_def getLogs_absent setItem_def split: option.splits)

text \<open>What the reference host writes for the journal of one such attempt, and reads back.\<close>

lemma noAccountsText:
  "JSON_stringify (storageItem (JArr (truncateLogs [newEntry noAccountsEntry firstTicks]))
     (writeNow firstTicks)) = noAccountsEnvelope"
  by (simp add: entry_defs noAccountsEntry_def stringify_defs noAccountsEnvelope_def)

lemma noAccountsText_compact: "compress noAccountsEnvelope = noAccountsEnvelope"
  by (simp add: compress_def trim_def isWhiteSpace_def noAccountsEnvelope_def js_def)

lemma noAccountsText_latin1: "latin1 noAccountsEnvelope"
  by (simp add: latin1_def noAccountsEnvelope_def js_def)

lemma noAccountsText_parses:
  "JSON_parse noAccountsEnvelope
   = Some (storageItem (JArr (truncateLogs [newEntry noAccountsEntry firstTicks]))
       (writeNow firstTicks))"
  by code_simp

lemma noAccounts_storable:
  "storable refHost (JArr (truncateLogs [newEntry noAccountsEntry firstTicks])) (writeNow firstTicks)"
proof (rule storableI)
  show "compress (stringify refHost
          (storageItem (JArr (truncateLogs [newEntry noAccountsEntry firstTicks]))
            (writeNow firstTicks)))
        = noAccountsEnvelope"
    by (simp add: refHost_def noAccountsText noAccountsText_compact)
  show "noAccountsEnvelope \<noteq> []" by (simp add: noAccountsEnvelope_def js_def)
  show "latin1 noAccountsEnvelope" by (rule noAccountsText_latin1)
  show "latin1 (getEncryptionKey refHost)" by (rule refKey_latin1)
  show "\<And>e. accepts refHost (fullKey logKey) e" by (simp add: refHost_def)
  show "parse refHost noAccountsEnvelope
        = Some (storageItem (JArr (truncateLogs [newEntry noAccountsEntry firstTicks]))
            (writeNow firstTicks))"
    by (simp add: refHost_def noAccountsText_parses)
qed

text \<open>
  Claim C4, as stated, fails in two ways. A provider that the locator finds only in the
  \<open>providers\<close> list of \<open>window.ethereum\<close> is never asked for its accounts: \<open>connectWallet\<close>
  tests the brand flag of \<open>window.ethereum\<close> itself and fails with
  \<open>Trust Wallet is not installed\<close>. And with a journal that cannot be written (here the
  storage refuses every write) the attempt fails with \<open>No accounts found\<close> as claimed, but
  \<open>addLogEntry\<close> returns \<open>false\<close> and no entry is appended.
\<close>

theorem connect_hidden_provider_or_full_storage:
  "getTrustWalletProvider hiddenWindow = Some bareProvider
   \<and> accountsReply (replies bareProvider) = Inr []
   \<and> snd (connectWallet hiddenWindow) = Inl (newError (js ''Trust Wallet is not installed''))
   \<and> error (snapshot initialState (fst (connectWallet hiddenWindow)))
        = Some (js ''Trust Wallet is not installed'')
   \<and> requested (fst (connectWallet hiddenWindow)) = []
   \<and> snd (connectWallet bareWindow) = Inl (newError (js ''No accounts found''))
   \<and> journaled (fst (connectWallet bareWindow)) = [noAccountsEntry]
   \<and> fst (addLogEntry fullHost Map.empty noAccountsEntry firstTicks) = Inr False
   \<and> fst (getLogs fullHost
          (journalEffects fullHost Map.empty (fst (connectWallet bareWindow)) [firstTicks]))
        = JArr []"
proof -
  have a: "getTrustWalletProvider hiddenWindow = Some bareProvider"
    by (simp add: hiddenWindow_def bareProvider_def)
  have b: "accountsReply (replies bareProvider) = Inr []"
    by (simp add: bareProvider_def barePeer_def)
  have c: "snd (connectWallet hiddenWindow) = Inl (newError (js ''Trust Wallet is not installed''))"
    by (simp add: connectWallet_def hiddenWindow_def Let_def)
  have d: "error (snapshot initialState (fst (connectWallet hiddenWindow)))
        = Some (js ''Trust Wallet is not installed'')"
    by (simp add: connectWallet_def hiddenWindow_def Let_def snapshot_def dispatched_connectCatch
        newError_def)
  have e: "requested (fst (connectWallet hiddenWindow)) = []"
    by (simp add: connectWallet_def hiddenWindow_def Let_def connectCatch_def newError_def
        str_includes_refl)
  have w: "bareWindow = Window (Some bareProvider)" by (simp add: bareWindow_def)
  have t: "isTrust bareProvider" by (simp add: bareProvider_def)
  note f = connect_without_accounts_effects(1)[OF w t b]
  note g = connect_without_accounts_effects(3)[OF w t b]
  have r: "addLogEntry fullHost Map.empty noAccountsEntry firstTicks = (Inr False, Map.empty)"
    by (rule refused_append) (simp_all add: fullHost_def)
  have h: "fst (addLogEntry fullHost Map.empty noAccountsEntry firstTicks) = Inr False"
    by (simp add: r)
  have i: "fst (getLogs fullHost
          (journalEffects fullHost Map.empty (fst (connectWallet bareWindow)) [firstTicks]))
        = JArr []"
    by (simp add: journalEffects_single[OF g] r getLogs_absent)
  show ?thesis by (intro conjI a b c d e f g h i)
qed

text \<open>
  Claim C4, amended. When \<open>window.ethereum\<close> is a provider that carries the brand flag
  itself and it grants an empty account list, \<open>connectWallet\<close> fails with the error
  \<open>No accounts found\<close>; from a snapshot that is not connected the snapshot left is not
  connected and shows that error; and the command hands exactly one entry to the journal,
  of kind error, written where the empty list is detected (the \<open>catch\<close> block adds none).
  When the journal read beforehand is a list and the journal with the new entry can be
  stored, \<open>addLogEntry\<close> returns \<open>true\<close> and the journal read afterwards is the old one with
  that one entry put in front (cut to the 100 most recent).
\<close>

theorem connect_without_accounts:
  assumes "w = Window (Some p)" and "isTrust p" and "accountsReply (replies p) = Inr []"
    and "\<not> isConnected s"
    and "fst (getLogs h ls) = JArr old"
    and "storable h (JArr (truncateLogs (newEntry noAccountsEntry t # old))) (writeNow t)"
  shows "snd (connectWallet w) = Inl (newError (js ''No accounts found''))
     \<and> \<not> isConnected (snapshot s (fst (connectWallet w)))
     \<and> error (snapshot s (fst (connectWallet w))) = Some (js ''No accounts found'')
     \<and> journaled (fst (connectWallet w)) = [noAccountsEntry]
     \<and> entryType noAccountsEntry = error_entry
     \<and> getProp (newEntry noAccountsEntry t) (js ''type'') = Some (JStr (js ''error''))
     \<and> fst (addLogEntry h ls noAccountsEntry t) = Inr True
     \<and> fst (getLogs h (journalEffects h ls (fst (connectWallet w)) (t # ts)))
         = JArr (truncateLogs (newEntry noAccountsEntry t # old))"
proof -
  note e = connect_without_accounts_effects[OF assms(1,2,3)]
  have a: "\<not> isConnected (snapshot s (fst (connectWallet w)))"
    using assms(4) by (simp add: snapshot_def e(2))
  have b: "error (snapshot s (fst (connectWallet w))) = Some (js ''No accounts found'')"
    by (simp add: snapshot_def e(2))
  have c: "entryType noAccountsEntry = error_entry" by (simp add: noAccountsEntry_def)
  have d: "getProp (newEntry noAccountsEntry t) (js ''type'') = Some (JStr (js ''error''))"
    by (simp add: newEntry_def noAccountsEntry_def js_def)
  from addLogEntry_storable[OF assms(5,6)]
  have f: "fst (addLogEntry h ls noAccountsEntry t) = Inr True"
    and g: "fst (getLogs h (snd (addLogEntry h ls noAccountsEntry t)))
         = JArr (truncateLogs (newEntry noAccountsEntry t # old))"
    by simp_all
  have i: "fst (getLogs h (journalEffects h ls (fst (connectWallet w)) (t # ts)))
         = JArr (truncateLogs (newEntry noAccountsEntry t # old))"
    by (simp add: journalEffects_single[OF e(3)] g)
  show ?thesis by (intro conjI e(1) a b e(3) c d f i)
qed

theorem connect_without_accounts_witness:
  "bareWindow = Window (Some bareProvider) \<and> isTrust bareProvider
   \<and> accountsReply (replies bareProvider) = Inr []
   \<and> \<not> isConnected initialState
   \<and> fst (getLogs refHost Map.empty) = JArr []
   \<and> storable refHost (JArr (truncateLogs [newEntry noAccountsEntry firstTicks]))
        (writeNow firstTicks)
   \<and> snd (connectWallet bareWindow) = Inl (newError (js ''No accounts found''))
   \<and> \<not> isConnected (snapshot initialState (fst (connectWallet bareWindow)))
   \<and> error (snapshot initialState (fst (connectWallet bareWindow)))
        = Some (js ''No accounts found'')
   \<and> length (filter (\<lambda>l. entryType l = error_entry) (journaled (fst (connectWallet bareWindow))))
        = 1
   \<and> fst (addLogEntry refHost Map.empty noAccountsEntry firstTicks) = Inr True
   \<and> fst (getLogs refHost
          (journalEffects refHost Map.empty (fst (connectWallet bareWindow)) [firstTicks]))
        = JArr [newEntry noAccountsEntry firstTicks]"
proof -
  have a: "bareWindow = Window (Some bareProvider)" by (simp add: bareWindow_def)
  have b: "isTrust bareProvider" by (simp add: bareProvider_def)
  have c: "accountsReply (replies bareProvider) = Inr []"
    by (simp add: bareProvider_def barePeer_def)
  have d: "\<not> isConnected initialState" by (simp add: initialState_def)
  from a b c d empty_journal noAccounts_storable
    connect_without_accounts[OF a b c d empty_journal noAccounts_storable, of "[]"]
  show ?thesis by (simp add: truncate_one)
qed


end
